theory Spec2Isabelle
  imports Main "HOL-Library.Word"
begin

unbundle bit_operations_syntax

section \<open>Overview\<close>

text \<open>
  A model of the package \<^verbatim>\<open>encryption\<close> (the file \<^verbatim>\<open>pkg/encryption/cipher.go\<close>):
  the derivation of a secret, the signed cookie value with its validation, and the
  ciphers with their in-place operations.

  The functions of the package are translated one by one and keep their names. What
  they call in the standard library of Go is modelled first: \<^verbatim>\<open>strings\<close>,
  \<^verbatim>\<open>strconv\<close>, \<^verbatim>\<open>encoding/base64\<close> and \<^verbatim>\<open>time\<close> as far as the package uses them,
  SHA-256, SHA-1 and HMAC as their standards define them, the CFB mode and GCM over
  a block cipher. AES itself is a parameter: a function from a key to the
  encryption of one block. The clock and the random source are arguments of the
  functions that read them.
\<close>

section \<open>Values and results\<close>

text \<open>
  A Go \<^verbatim>\<open>string\<close> and a Go \<^verbatim>\<open>[]byte\<close> are both sequences of bytes, and the
  conversions \<^verbatim>\<open>[]byte(s)\<close> and \<^verbatim>\<open>string(b)\<close> keep every byte: both are lists of
  8-bit characters here, and the conversions disappear.
\<close>

type_synonym bytes = "char list"

text \<open>
  The errors the package returns or passes on. \<^verbatim>\<open>fmt.Errorf\<close> wraps the text of an
  inner error into a new one: the wrapping constructors keep the inner error.
\<close>

datatype error =
    CorruptInputError
  | KeySizeError nat
  | RandError
  | IVError error
  | Base64DecodeError error
  | ShortCiphertextError nat nat
  | OpenError

text \<open>
  A call returns a value, returns an error, or panics (a run-time panic of Go is not an
  error value: it unwinds the caller).
\<close>

datatype 'a result = Ok 'a | Err error | Panic

section \<open>Standard library: strings, strconv, encoding/base64, io, time\<close>

subsection \<open>strings\<close>

text \<open>\<^verbatim>\<open>strings.Split(s, sep)\<close> for a separator of one byte: one more part than separators.\<close>

fun Split :: "string \<Rightarrow> char \<Rightarrow> string list" where
  "Split [] sep = [[]]"
| "Split (c # cs) sep =
     (if c = sep then [] # Split cs sep
      else (case Split cs sep of p # ps \<Rightarrow> (c # p) # ps | [] \<Rightarrow> [[c]]))"

text \<open>\<^verbatim>\<open>strings.TrimRight(s, cutset)\<close> for a cutset of one byte.\<close>

definition TrimRight :: "string \<Rightarrow> char \<Rightarrow> string" where
  "TrimRight s cutc = rev (dropWhile (\<lambda>c. c = cutc) (rev s))"

subsection \<open>strconv and fmt\<close>

definition isDigit :: "char \<Rightarrow> bool" where
  "isDigit c = (48 \<le> (of_char c :: int) \<and> (of_char c :: int) \<le> 57)"

definition digitVal :: "char \<Rightarrow> int" where
  "digitVal c = of_char c - 48"

text \<open>The value of a string of decimal digits, most significant first.\<close>

fun parseDigits :: "int \<Rightarrow> string \<Rightarrow> int option" where
  "parseDigits n [] = Some n"
| "parseDigits n (c # cs) = (if isDigit c then parseDigits (n * 10 + digitVal c) cs else None)"

text \<open>
  \<^verbatim>\<open>strconv.Atoi\<close> on a 64-bit platform: an optional sign, then at least one decimal
  digit and nothing else; a value outside the range of \<^verbatim>\<open>int\<close> is an error. (The fast
  path for short strings and \<^verbatim>\<open>ParseInt(s, 10, 0)\<close> compute the same function.)
\<close>

definition Atoi :: "string \<Rightarrow> int option" where
  "Atoi s =
     (case s of
        [] \<Rightarrow> None
      | c # cs \<Rightarrow>
          (let neg = (c = CHR ''-'');
               ds = (if c = CHR ''-'' \<or> c = CHR ''+'' then cs else s)
           in if ds = [] then None
              else (case parseDigits 0 ds of
                      None \<Rightarrow> None
                    | Some n \<Rightarrow>
                        (let v = (if neg then - n else n)
                         in if - 9223372036854775808 \<le> v \<and> v \<le> 9223372036854775807
                            then Some v else None))))"

definition digitChar :: "int \<Rightarrow> char" where
  "digitChar d = char_of (48 + d)"

text \<open>The decimal digits of a number that is not negative, as \<^verbatim>\<open>%d\<close> prints them.\<close>

function formatDigits :: "int \<Rightarrow> string" where
  "formatDigits n =
     (if n < 10 then [digitChar n] else formatDigits (n div 10) @ [digitChar (n mod 10)])"
  by pat_completeness auto
termination
  by (relation "measure nat") auto

declare formatDigits.simps [simp del]

text \<open>\<^verbatim>\<open>fmt.Sprintf("%d", n)\<close>.\<close>

definition formatInt :: "int \<Rightarrow> string" where
  "formatInt n = (if n < 0 then CHR ''-'' # formatDigits (- n) else formatDigits n)"

subsection \<open>encoding/base64\<close>

text \<open>
  An encoding is its alphabet of 64 characters and its padding character, if it pads
  (\<^verbatim>\<open>NoPadding\<close> is \<open>None\<close>).
\<close>

record Encoding =
  encode :: string
  padChar :: "char option"

definition encodeStd :: string where
  "encodeStd = ''ABCDEFGHIJKLMNOPQRSTUVWXYZabcdefghijklmnopqrstuvwxyz0123456789+/''"

definition encodeURL :: string where
  "encodeURL = ''ABCDEFGHIJKLMNOPQRSTUVWXYZabcdefghijklmnopqrstuvwxyz0123456789-_''"

definition StdEncoding :: Encoding where
  "StdEncoding = \<lparr>encode = encodeStd, padChar = Some CHR ''=''\<rparr>"

definition URLEncoding :: Encoding where
  "URLEncoding = \<lparr>encode = encodeURL, padChar = Some CHR ''=''\<rparr>"

definition RawURLEncoding :: Encoding where
  "RawURLEncoding = \<lparr>encode = encodeURL, padChar = None\<rparr>"

definition padding :: "Encoding \<Rightarrow> string" where
  "padding enc = (case padChar enc of None \<Rightarrow> [] | Some p \<Rightarrow> [p])"

text \<open>
  \<^verbatim>\<open>EncodeToString\<close>: three bytes give four characters; a last group of one or two
  bytes gives two or three characters and the padding.
\<close>

fun EncodeToString :: "Encoding \<Rightarrow> bytes \<Rightarrow> string" where
  "EncodeToString enc (a # b # c # rest) =
     [encode enc ! (of_char a div 4),
      encode enc ! ((of_char a mod 4) * 16 + of_char b div 16),
      encode enc ! ((of_char b mod 16) * 4 + of_char c div 64),
      encode enc ! (of_char c mod 64)] @ EncodeToString enc rest"
| "EncodeToString enc [a, b] =
     [encode enc ! (of_char a div 4),
      encode enc ! ((of_char a mod 4) * 16 + of_char b div 16),
      encode enc ! ((of_char b mod 16) * 4)] @ padding enc"
| "EncodeToString enc [a] =
     [encode enc ! (of_char a div 4),
      encode enc ! ((of_char a mod 4) * 16)] @ padding enc @ padding enc"
| "EncodeToString enc [] = []"

text \<open>The decode map: the position of a character in the alphabet.\<close>

fun indexByte :: "string \<Rightarrow> char \<Rightarrow> nat option" where
  "indexByte [] c = None"
| "indexByte (x # xs) c = (if x = c then Some 0 else map_option Suc (indexByte xs c))"

definition decodeMap :: "Encoding \<Rightarrow> char \<Rightarrow> nat option" where
  "decodeMap enc c = indexByte (encode enc) c"

definition isNewline :: "char \<Rightarrow> bool" where
  "isNewline c = (c = CHR 0x0A \<or> c = CHR 0x0D)"

text \<open>
  The bytes of a quantum of two, three or four 6-bit values. The decoder is not strict:
  the unused low bits of the last value of a short quantum are dropped unchecked.
\<close>

fun quantumBytes :: "nat list \<Rightarrow> bytes" where
  "quantumBytes [s0, s1] = [char_of (s0 * 4 + s1 div 16)]"
| "quantumBytes [s0, s1, s2] =
     [char_of (s0 * 4 + s1 div 16), char_of ((s1 mod 16) * 16 + s2 div 4)]"
| "quantumBytes [s0, s1, s2, s3] =
     [char_of (s0 * 4 + s1 div 16), char_of ((s1 mod 16) * 16 + s2 div 4),
      char_of ((s2 mod 4) * 64 + s3)]"
| "quantumBytes _ = []"

text \<open>
  \<^verbatim>\<open>DecodeString\<close>, with the 6-bit values of the open quantum in \<open>acc\<close>. Carriage
  returns and line feeds are skipped wherever they stand. A padding character is
  accepted only in the third or fourth place of a quantum of a padded encoding, and
  only newlines may follow the padding. The input may end in a quantum only in an
  unpadded encoding, after two or three characters of it. \<open>None\<close> is
  \<^verbatim>\<open>CorruptInputError\<close> (its offset is not kept).
\<close>

fun decodeQuanta :: "Encoding \<Rightarrow> nat list \<Rightarrow> string \<Rightarrow> bytes option" where
  "decodeQuanta enc acc [] =
     (if acc = [] then Some []
      else if length acc = 1 \<or> padChar enc \<noteq> None then None
      else Some (quantumBytes acc))"
| "decodeQuanta enc acc (c # cs) =
     (case decodeMap enc c of
        Some v \<Rightarrow>
          (if length acc = 3
           then map_option (\<lambda>r. quantumBytes (acc @ [v]) @ r) (decodeQuanta enc [] cs)
           else decodeQuanta enc (acc @ [v]) cs)
      | None \<Rightarrow>
          (if isNewline c then decodeQuanta enc acc cs
           else if Some c \<noteq> padChar enc then None
           else if length acc < 2 then None
           else if length acc = 2 then
             (case dropWhile isNewline cs of
                [] \<Rightarrow> None
              | d # ds \<Rightarrow>
                  (if Some d \<noteq> padChar enc then None
                   else if dropWhile isNewline ds = [] then Some (quantumBytes acc)
                   else None))
           else if dropWhile isNewline cs = [] then Some (quantumBytes acc)
           else None))"

definition DecodeString :: "Encoding \<Rightarrow> string \<Rightarrow> bytes option" where
  "DecodeString enc s = decodeQuanta enc [] s"

subsection \<open>time\<close>

text \<open>
  A \<^verbatim>\<open>time.Time\<close> is an instant: the number of nanoseconds since the Unix epoch (the
  location and the monotonic clock reading play no part in the comparisons below,
  where one side comes from \<^verbatim>\<open>time.Unix\<close>). A \<^verbatim>\<open>time.Duration\<close> is a signed 64-bit
  count of nanoseconds, whose arithmetic wraps. \<^verbatim>\<open>Add\<close> is exact for the readings of a
  clock: it saturates only at the ends of the range of \<^verbatim>\<open>Time\<close>, billions of years
  away.
\<close>

type_synonym Time = int

type_synonym Duration = "64 word"

definition Minute :: Duration where
  "Minute = 60000000000"

text \<open>The zero \<^verbatim>\<open>Time\<close>: January 1 of year 1, 00:00:00 UTC.\<close>

definition zeroTime :: Time where
  "zeroTime = - 62135596800000000000"

text \<open>
  A number as a signed 64-bit integer: what \<^verbatim>\<open>int64\<close> arithmetic leaves when it
  overflows.
\<close>

definition int64 :: "int \<Rightarrow> int" where
  "int64 x = (x + 9223372036854775808) mod 18446744073709551616 - 9223372036854775808"

text \<open>The seconds from January 1 of year 1 to the Unix epoch.\<close>

definition unixToInternal :: int where
  "unixToInternal = 62135596800"

text \<open>
  \<^verbatim>\<open>time.Unix(sec, nsec)\<close>. Nanoseconds outside of a second are carried into the
  seconds. A \<^verbatim>\<open>Time\<close> keeps its seconds counted from year 1, in an \<^verbatim>\<open>int64\<close>:
  \<^verbatim>\<open>sec + unixToInternal\<close>, which wraps for \<open>sec\<close> above
  \<open>2\<^sup>6\<^sup>3 - 1 - 62135596800\<close>. The instant of such a \<^verbatim>\<open>Time\<close> is then far in the
  past.
\<close>

definition Unix :: "int \<Rightarrow> int \<Rightarrow> Time" where
  "Unix sec nsec =
     (int64 (int64 (sec + nsec div 1000000000) + unixToInternal) - unixToInternal) * 1000000000
       + nsec mod 1000000000"

text \<open>The method \<^verbatim>\<open>t.Unix()\<close>: the seconds since the Unix epoch, rounded down.\<close>

definition Time_Unix :: "Time \<Rightarrow> int" where
  "Time_Unix t = t div 1000000000"

definition Add :: "Time \<Rightarrow> Duration \<Rightarrow> Time" where
  "Add t d = t + sint d"

definition After :: "Time \<Rightarrow> Time \<Rightarrow> bool" where
  "After t u = (u < t)"

definition Before :: "Time \<Rightarrow> Time \<Rightarrow> bool" where
  "Before t u = (t < u)"

subsection \<open>io and crypto/rand\<close>

text \<open>
  The random source is the sequence of bytes it still has to give.
  \<^verbatim>\<open>io.ReadFull(rand.Reader, buf)\<close> fills a buffer of \<open>n\<close> bytes or fails.
\<close>

definition ReadFull :: "bytes \<Rightarrow> nat \<Rightarrow> bytes result" where
  "ReadFull rnd n = (if n \<le> length rnd then Ok (take n rnd) else Err RandError)"

section \<open>Standard library: crypto/sha256, crypto/sha1, crypto/hmac\<close>

text \<open>
  The two hash functions and HMAC, as their standards define them. A word of 32 bits is
  an integer from 0 up to \<open>2\<^sup>3\<^sup>2 - 1\<close>; a byte is an integer below 256.
\<close>

definition add32 :: "int \<Rightarrow> int \<Rightarrow> int" where
  "add32 x y = (x + y) mod 4294967296"

text \<open>Rotation to the right by \<open>n\<close> bits, given \<open>d = 2\<^sup>n\<close> and \<open>m = 2\<^sup>3\<^sup>2\<^sup>-\<^sup>n\<close>.\<close>

definition rotr32 :: "int \<Rightarrow> int \<Rightarrow> int \<Rightarrow> int" where
  "rotr32 d m x = x div d + (x mod d) * m"

definition not32 :: "int \<Rightarrow> int" where
  "not32 x = 4294967295 - x"

text \<open>Four bytes as a word, most significant byte first, and back.\<close>

fun wordsOfBytes :: "int list \<Rightarrow> int list" where
  "wordsOfBytes (a # b # c # d # r) = (((a * 256 + b) * 256 + c) * 256 + d) # wordsOfBytes r"
| "wordsOfBytes _ = []"

definition bytesOfWord :: "int \<Rightarrow> int list" where
  "bytesOfWord x = [x div 16777216, x div 65536 mod 256, x div 256 mod 256, x mod 256]"

text \<open>
  The padding of a message of \<open>l\<close> bytes: the byte 128, zero bytes up to 56 modulo 64,
  and the length in bits in 8 bytes.
\<close>

definition mdPad :: "int list \<Rightarrow> int list" where
  "mdPad m =
     (let l = length m
      in m @ [128] @ replicate ((119 - l mod 64) mod 64) 0
           @ map (\<lambda>i. (int l * 8) div 256 ^ i mod 256) [7, 6, 5, 4, 3, 2, 1, 0])"

fun mdBlocks :: "nat \<Rightarrow> int list \<Rightarrow> int list list" where
  "mdBlocks 0 m = []"
| "mdBlocks (Suc n) m = take 64 m # mdBlocks n (drop 64 m)"

subsection \<open>SHA-256\<close>

definition K256 :: "int list" where
  "K256 =
    [1116352408, 1899447441, 3049323471, 3921009573, 961987163, 1508970993,
     2453635748, 2870763221, 3624381080, 310598401, 607225278, 1426881987,
     1925078388, 2162078206, 2614888103, 3248222580, 3835390401, 4022224774,
     264347078, 604807628, 770255983, 1249150122, 1555081692, 1996064986,
     2554220882, 2821834349, 2952996808, 3210313671, 3336571891, 3584528711,
     113926993, 338241895, 666307205, 773529912, 1294757372, 1396182291,
     1695183700, 1986661051, 2177026350, 2456956037, 2730485921, 2820302411,
     3259730800, 3345764771, 3516065817, 3600352804, 4094571909, 275423344,
     430227734, 506948616, 659060556, 883997877, 958139571, 1322822218,
     1537002063, 1747873779, 1955562222, 2024104815, 2227730452, 2361852424,
     2428436474, 2756734187, 3204031479, 3329325298]"

definition ssig0 :: "int \<Rightarrow> int" where
  "ssig0 x = rotr32 128 33554432 x XOR rotr32 262144 16384 x XOR x div 8"

definition ssig1 :: "int \<Rightarrow> int" where
  "ssig1 x = rotr32 131072 32768 x XOR rotr32 524288 8192 x XOR x div 1024"

definition bsig0 :: "int \<Rightarrow> int" where
  "bsig0 x = rotr32 4 1073741824 x XOR rotr32 8192 524288 x XOR rotr32 4194304 1024 x"

definition bsig1 :: "int \<Rightarrow> int" where
  "bsig1 x = rotr32 64 67108864 x XOR rotr32 2048 2097152 x XOR rotr32 33554432 128 x"

definition ch32 :: "int \<Rightarrow> int \<Rightarrow> int \<Rightarrow> int" where
  "ch32 x y z = (x AND y) XOR (not32 x AND z)"

definition maj32 :: "int \<Rightarrow> int \<Rightarrow> int \<Rightarrow> int" where
  "maj32 x y z = (x AND y) XOR (x AND z) XOR (y AND z)"

text \<open>The message schedule, newest word first: \<open>n\<close> more words.\<close>

fun schedule256 :: "nat \<Rightarrow> int list \<Rightarrow> int list" where
  "schedule256 0 w = w"
| "schedule256 (Suc n) w =
     schedule256 n
       (add32 (add32 (ssig1 (w ! 1)) (w ! 6)) (add32 (ssig0 (w ! 14)) (w ! 15)) # w)"

fun rounds256 :: "int list \<Rightarrow> int list \<Rightarrow> int list \<Rightarrow> int list" where
  "rounds256 [a, b, c, d, e, f, g, h] (k # ks) (w # ws) =
     (let t1 = add32 (add32 (add32 h (bsig1 e)) (add32 (ch32 e f g) k)) w;
          t2 = add32 (bsig0 a) (maj32 a b c)
      in rounds256 [add32 t1 t2, a, b, c, add32 d t1, e, f, g] ks ws)"
| "rounds256 s _ _ = s"

definition compress256 :: "int list \<Rightarrow> int list \<Rightarrow> int list" where
  "compress256 h blk =
     map2 add32 h (rounds256 h K256 (rev (schedule256 48 (rev (wordsOfBytes blk)))))"

definition sha256Sum :: "int list \<Rightarrow> int list" where
  "sha256Sum m =
     (let p = mdPad m
      in concat (map bytesOfWord
           (foldl compress256
              [1779033703, 3144134277, 1013904242, 2773480762, 1359893119, 2600822924, 528734635, 1541459225]
              (mdBlocks (length p div 64) p))))"

subsection \<open>SHA-1\<close>

text \<open>Rotation to the left by \<open>n\<close> bits, given \<open>m = 2\<^sup>n\<close> and \<open>d = 2\<^sup>3\<^sup>2\<^sup>-\<^sup>n\<close>.\<close>

definition rotl32 :: "int \<Rightarrow> int \<Rightarrow> int \<Rightarrow> int" where
  "rotl32 m d x = (x mod d) * m + x div d"

fun schedule1 :: "nat \<Rightarrow> int list \<Rightarrow> int list" where
  "schedule1 0 w = w"
| "schedule1 (Suc n) w =
     schedule1 n (rotl32 2 2147483648 (w ! 2 XOR w ! 7 XOR w ! 13 XOR w ! 15) # w)"

text \<open>The round function and constant of round \<open>t\<close>.\<close>

definition f1 :: "nat \<Rightarrow> int \<Rightarrow> int \<Rightarrow> int \<Rightarrow> int" where
  "f1 t b c d =
     (if t < 20 then ch32 b c d
      else if t < 40 then b XOR c XOR d
      else if t < 60 then maj32 b c d
      else b XOR c XOR d)"

definition k1 :: "nat \<Rightarrow> int" where
  "k1 t =
     (if t < 20 then 1518500249
      else if t < 40 then 1859775393
      else if t < 60 then 2400959708
      else 3395469782)"

fun rounds1 :: "nat \<Rightarrow> int list \<Rightarrow> int list \<Rightarrow> int list" where
  "rounds1 t [a, b, c, d, e] (w # ws) =
     rounds1 (Suc t)
       [add32 (add32 (add32 (rotl32 32 134217728 a) (f1 t b c d)) (add32 e (k1 t))) w,
        a, rotl32 1073741824 4 b, c, d] ws"
| "rounds1 t s _ = s"

definition compress1 :: "int list \<Rightarrow> int list \<Rightarrow> int list" where
  "compress1 h blk = map2 add32 h (rounds1 0 h (rev (schedule1 64 (rev (wordsOfBytes blk)))))"

definition sha1Sum :: "int list \<Rightarrow> int list" where
  "sha1Sum m =
     (let p = mdPad m
      in concat (map bytesOfWord
           (foldl compress1 [1732584193, 4023233417, 2562383102, 271733878, 3285377520]
              (mdBlocks (length p div 64) p))))"

subsection \<open>HMAC\<close>

text \<open>
  A hash as \<^verbatim>\<open>hmac.New\<close> uses it: the function from a message to its digest, and the
  block size.
\<close>

record Hash =
  hashSum :: "int list \<Rightarrow> int list"
  hashBlockSize :: nat

definition sha256_New :: Hash where
  "sha256_New = \<lparr>hashSum = sha256Sum, hashBlockSize = 64\<rparr>"

definition sha1_New :: Hash where
  "sha1_New = \<lparr>hashSum = sha1Sum, hashBlockSize = 64\<rparr>"

text \<open>
  The MAC of \<^verbatim>\<open>hmac.New(signer, key)\<close> after the message has been written to it: a
  key longer than a block is hashed first, then filled with zero bytes to a block.
\<close>

definition hmacSum :: "Hash \<Rightarrow> bytes \<Rightarrow> bytes \<Rightarrow> bytes" where
  "hmacSum h key msg =
     (let k = map of_char key;
          k0 = (if hashBlockSize h < length k then hashSum h k else k);
          kb = k0 @ replicate (hashBlockSize h - length k0) 0;
          inner = hashSum h (map (\<lambda>x. x XOR 54) kb @ map of_char msg)
      in map char_of (hashSum h (map (\<lambda>x. x XOR 92) kb @ inner)))"

text \<open>\<^verbatim>\<open>hmac.Equal\<close>: equality of two MACs (in time that depends on their length only).\<close>

definition hmacEqual :: "bytes \<Rightarrow> bytes \<Rightarrow> bool" where
  "hmacEqual mac1 mac2 = (mac1 = mac2)"

section \<open>Standard library: crypto/aes and crypto/cipher\<close>

text \<open>
  A \<^verbatim>\<open>cipher.Block\<close> made by \<^verbatim>\<open>aes.NewCipher\<close> is the encryption of one block of 16
  bytes under the key it was made from. AES itself stays a parameter (a function from
  a key to a block function): nothing below depends on how it permutes a block.
\<close>

type_synonym Block = "bytes \<Rightarrow> bytes"

definition aesBlockSize :: nat where
  "aesBlockSize = 16"

text \<open>\<^verbatim>\<open>aes.NewCipher\<close>: a key of 16, 24 or 32 bytes, or \<^verbatim>\<open>KeySizeError\<close>.\<close>

definition aesNewCipher :: "(bytes \<Rightarrow> Block) \<Rightarrow> bytes \<Rightarrow> Block result" where
  "aesNewCipher aes key =
     (if length key = 16 \<or> length key = 24 \<or> length key = 32 then Ok (aes key)
      else Err (KeySizeError (length key)))"

definition xorByte :: "char \<Rightarrow> char \<Rightarrow> char" where
  "xorByte a b = char_of ((of_char a :: nat) XOR of_char b)"

text \<open>\<^verbatim>\<open>subtle.XORBytes\<close>: as many bytes as the shorter operand has.\<close>

definition XORBytes :: "bytes \<Rightarrow> bytes \<Rightarrow> bytes" where
  "XORBytes x y = map2 xorByte x y"

text \<open>
  CFB mode, \<^verbatim>\<open>XORKeyStream\<close> of \<^verbatim>\<open>cipher.NewCFBEncrypter(block, iv)\<close>: each block of
  the source is combined with the encryption of the previous block of ciphertext, the
  first one with the encryption of the initialisation vector.
\<close>

function cfbEncrypt :: "Block \<Rightarrow> bytes \<Rightarrow> bytes \<Rightarrow> bytes" where
  "cfbEncrypt b prev src =
     (if src = [] then []
      else (let dst = XORBytes (take aesBlockSize src) (b prev)
            in dst @ cfbEncrypt b dst (drop aesBlockSize src)))"
  by pat_completeness auto
termination
  by (relation "measure (\<lambda>(b, prev, src). length src)") (auto simp: aesBlockSize_def)

text \<open>\<^verbatim>\<open>XORKeyStream\<close> of \<^verbatim>\<open>cipher.NewCFBDecrypter(block, iv)\<close>.\<close>

function cfbDecrypt :: "Block \<Rightarrow> bytes \<Rightarrow> bytes \<Rightarrow> bytes" where
  "cfbDecrypt b prev src =
     (if src = [] then []
      else XORBytes (take aesBlockSize src) (b prev)
             @ cfbDecrypt b (take aesBlockSize src) (drop aesBlockSize src))"
  by pat_completeness auto
termination
  by (relation "measure (\<lambda>(b, prev, src). length src)") (auto simp: aesBlockSize_def)

declare cfbEncrypt.simps [simp del] cfbDecrypt.simps [simp del]

subsection \<open>GCM\<close>

definition gcmStandardNonceSize :: nat where
  "gcmStandardNonceSize = 12"

definition gcmTagSize :: nat where
  "gcmTagSize = 16"

text \<open>A sequence of bytes as a number, most significant byte first, and back.\<close>

definition bytesToInt :: "bytes \<Rightarrow> int" where
  "bytesToInt bs = foldl (\<lambda>n c. n * 256 + of_char c) 0 bs"

fun intToBytes :: "nat \<Rightarrow> int \<Rightarrow> bytes" where
  "intToBytes 0 n = []"
| "intToBytes (Suc k) n = intToBytes k (n div 256) @ [char_of (n mod 256)]"

text \<open>
  The product of two blocks in the field of GCM: the leftmost bit of a block is the
  coefficient of the lowest power.
\<close>

fun gfMulLoop :: "nat \<Rightarrow> int \<Rightarrow> int \<Rightarrow> int \<Rightarrow> int" where
  "gfMulLoop 0 x z v = z"
| "gfMulLoop (Suc i) x z v =
     gfMulLoop i x (if bit x i then z XOR v else z)
       (if odd v then (v div 2) XOR 299076299051606071403356588563077529600 else v div 2)"

definition gfMul :: "int \<Rightarrow> int \<Rightarrow> int" where
  "gfMul x y = gfMulLoop 128 x 0 y"

text \<open>The blocks of 16 bytes of a sequence, the last one filled with zero bytes.\<close>

function ghashBlocks :: "bytes \<Rightarrow> int list" where
  "ghashBlocks bs =
     (if bs = [] then []
      else bytesToInt (take 16 (bs @ replicate 15 (CHR 0x00))) # ghashBlocks (drop 16 bs))"
  by pat_completeness auto
termination
  by (relation "measure length") auto

declare ghashBlocks.simps [simp del]

text \<open>
  The authentication tag of a ciphertext with no additional data, under the nonce of 12
  bytes: GHASH of the ciphertext and of the two lengths in bits, masked with the
  encryption of the first counter block.
\<close>

definition gcmTag :: "Block \<Rightarrow> bytes \<Rightarrow> bytes \<Rightarrow> bytes" where
  "gcmTag b nonce ct =
     (let h = bytesToInt (b (replicate 16 (CHR 0x00)));
          y = foldl (\<lambda>y x. gfMul (y XOR x) h) 0 (ghashBlocks ct @ [int (length ct) * 8])
      in XORBytes (intToBytes gcmTagSize y) (b (nonce @ intToBytes 4 1)))"

text \<open>Counter mode from the counter \<open>ctr\<close> on; the counter wraps at 32 bits.\<close>

function gcmCounterCrypt :: "Block \<Rightarrow> bytes \<Rightarrow> int \<Rightarrow> bytes \<Rightarrow> bytes" where
  "gcmCounterCrypt b nonce ctr src =
     (if src = [] then []
      else XORBytes (take 16 src) (b (nonce @ intToBytes 4 ctr))
             @ gcmCounterCrypt b nonce ((ctr + 1) mod 4294967296) (drop 16 src))"
  by pat_completeness auto
termination
  by (relation "measure (\<lambda>(b, nonce, ctr, src). length src)") auto

declare gcmCounterCrypt.simps [simp del]

text \<open>
  \<^verbatim>\<open>Seal(dst, nonce, plaintext, nil)\<close> of the AEAD made by \<^verbatim>\<open>cipher.NewGCM\<close>: the
  ciphertext and its tag, appended to \<open>dst\<close>. A nonce of another length than the
  standard one is a panic. (The limit of 64 GiB on the size of a message is not
  modelled.)
\<close>

definition gcmSeal :: "Block \<Rightarrow> bytes \<Rightarrow> bytes \<Rightarrow> bytes \<Rightarrow> bytes result" where
  "gcmSeal b dst nonce plaintext =
     (if length nonce \<noteq> gcmStandardNonceSize then Panic
      else (let ct = gcmCounterCrypt b nonce 2 plaintext
            in Ok (dst @ ct @ gcmTag b nonce ct)))"

text \<open>
  \<^verbatim>\<open>Open(nil, nonce, ciphertext, nil)\<close>: an input shorter than the tag, or a tag that
  is not the one of the ciphertext, is the error \<^verbatim>\<open>errOpen\<close>, and nothing is decrypted.
\<close>

definition gcmOpen :: "Block \<Rightarrow> bytes \<Rightarrow> bytes \<Rightarrow> bytes result" where
  "gcmOpen b nonce ciphertext =
     (if length nonce \<noteq> gcmStandardNonceSize then Panic
      else if length ciphertext < gcmTagSize then Err OpenError
      else (let tag = drop (length ciphertext - gcmTagSize) ciphertext;
                ct = take (length ciphertext - gcmTagSize) ciphertext
            in if gcmTag b nonce ct \<noteq> tag then Err OpenError
               else Ok (gcmCounterCrypt b nonce 2 ct)))"

section \<open>The package: secrets and signed cookie values\<close>

text \<open>
  The loop of \<^verbatim>\<open>SecretBytes\<close> over the lengths 16, 24 and 32: the decoded bytes at
  the first length they have, or nothing when the loop ends.
\<close>

fun rangeAESLengths :: "nat list \<Rightarrow> bytes \<Rightarrow> bytes option" where
  "rangeAESLengths [] b = None"
| "rangeAESLengths (i # is) b = (if length b = i then Some b else rangeAESLengths is b)"

definition SecretBytes :: "string \<Rightarrow> bytes" where
  "SecretBytes secret =
     (case DecodeString RawURLEncoding (TrimRight secret CHR ''='') of
        Some b \<Rightarrow>
          (case rangeAESLengths [16, 24, 32] b of
             Some r \<Rightarrow> r
           | None \<Rightarrow> secret)
      | None \<Rightarrow> secret)"

text \<open>The two fields of \<^verbatim>\<open>http.Cookie\<close> that the package reads.\<close>

record Cookie =
  Name :: string
  Value :: string

text \<open>
  \<^verbatim>\<open>cookieSignature(signer, args...)\<close>: the first argument is the key, the others are
  written to the MAC one after the other. With no argument at all \<^verbatim>\<open>args[0]\<close> is out
  of range.
\<close>

definition cookieSignature :: "Hash \<Rightarrow> string list \<Rightarrow> string result" where
  "cookieSignature signer args =
     (case args of
        [] \<Rightarrow> Panic
      | key # rest \<Rightarrow> Ok (EncodeToString URLEncoding (hmacSum signer key (concat rest))))"

definition checkHmac :: "string \<Rightarrow> string \<Rightarrow> bool" where
  "checkHmac input expected =
     (case DecodeString URLEncoding input of
        Some inputMAC \<Rightarrow>
          (case DecodeString URLEncoding expected of
             Some expectedMAC \<Rightarrow> hmacEqual inputMAC expectedMAC
           | None \<Rightarrow> False)
      | None \<Rightarrow> False)"

definition checkSignature :: "string \<Rightarrow> string list \<Rightarrow> bool result" where
  "checkSignature signature args =
     (case cookieSignature sha256_New args of
        Err e \<Rightarrow> Err e
      | Panic \<Rightarrow> Panic
      | Ok checkSig \<Rightarrow>
          (if checkHmac signature checkSig then Ok True
           else (case cookieSignature sha1_New args of
                   Err e \<Rightarrow> Err e
                 | Panic \<Rightarrow> Panic
                 | Ok legacySig \<Rightarrow> Ok (checkHmac signature legacySig))))"

text \<open>
  \<^verbatim>\<open>Validate(cookie, seed, expiration)\<close>, for a cookie pointer that is not \<^verbatim>\<open>nil\<close>.
  The results \<^verbatim>\<open>value\<close>, \<^verbatim>\<open>t\<close> and \<^verbatim>\<open>ok\<close> are named: a bare \<^verbatim>\<open>return\<close> gives what
  they hold then, \<^verbatim>\<open>nil\<close> (here \<open>None\<close>), the zero time and \<^verbatim>\<open>false\<close> until they are
  assigned. The code reads the clock twice: \<open>now1\<close> and \<open>now2\<close> are the two readings
  of \<^verbatim>\<open>time.Now()\<close>.
\<close>

definition Validate ::
  "Cookie \<Rightarrow> string \<Rightarrow> Duration \<Rightarrow> Time \<Rightarrow> Time \<Rightarrow> (bytes option \<times> Time \<times> bool) result" where
  "Validate cookie seed expiration now1 now2 =
     (let parts = Split (Value cookie) CHR ''|''
      in if length parts \<noteq> 3 then Ok (None, zeroTime, False)
         else (case checkSignature (parts ! 2) [seed, Name cookie, parts ! 0, parts ! 1] of
                 Err e \<Rightarrow> Err e
               | Panic \<Rightarrow> Panic
               | Ok False \<Rightarrow> Ok (None, zeroTime, False)
               | Ok True \<Rightarrow>
                   (case Atoi (parts ! 1) of
                      None \<Rightarrow> Ok (None, zeroTime, False)
                    | Some ts \<Rightarrow>
                        (let t = Unix ts 0
                         in if After t (Add now1 (expiration * - 1))
                               \<and> Before t (Add now2 (Minute * 5))
                            then (case DecodeString URLEncoding (parts ! 0) of
                                    Some rawValue \<Rightarrow> Ok (Some rawValue, t, True)
                                  | None \<Rightarrow> Ok (None, t, False))
                            else Ok (None, t, False)))))"

text \<open>\<^verbatim>\<open>SignedValue(seed, key, value, now)\<close>.\<close>

definition SignedValue :: "string \<Rightarrow> string \<Rightarrow> bytes \<Rightarrow> Time \<Rightarrow> string result" where
  "SignedValue seed key val now =
     (let encodedValue = EncodeToString URLEncoding val;
          timeStr = formatInt (Time_Unix now)
      in (case cookieSignature sha256_New [seed, key, encodedValue, timeStr] of
            Err e \<Rightarrow> Err e
          | Panic \<Rightarrow> Panic
          | Ok sig \<Rightarrow> Ok (encodedValue @ ''|'' @ timeStr @ ''|'' @ sig)))"

section \<open>The package: ciphers\<close>

text \<open>
  The four types that implement the interface \<^verbatim>\<open>Cipher\<close>. \<^verbatim>\<open>Base64Cipher\<close> holds
  another cipher; \<^verbatim>\<open>CFBCipher\<close> and \<^verbatim>\<open>GCMCipher\<close> hold a \<^verbatim>\<open>cipher.Block\<close>. All three
  embed a \<^verbatim>\<open>DefaultCipher\<close>, which has no fields.
\<close>

datatype Cipher =
    DefaultCipher
  | Base64Cipher Cipher
  | CFBCipher Block
  | GCMCipher Block

text \<open>\<^verbatim>\<open>codecFunc\<close>: a function from bytes to bytes or an error.\<close>

type_synonym codecFunc = "bytes \<Rightarrow> bytes result"

text \<open>
  \<^verbatim>\<open>into(f, s)\<close>. The pointer \<open>s\<close> is \<open>None\<close> when it is \<^verbatim>\<open>nil\<close>; the result is the
  string it points to afterwards, and what the call returned: \<open>Ok ()\<close> for the
  \<^verbatim>\<open>nil\<close> error.
\<close>

definition into :: "codecFunc \<Rightarrow> string option \<Rightarrow> string option \<times> unit result" where
  "into f s =
     (case s of
        None \<Rightarrow> (s, Ok ())
      | Some str \<Rightarrow>
          (if str = [] then (s, Ok ())
           else (case f str of
                   Err e \<Rightarrow> (s, Err e)
                 | Panic \<Rightarrow> (s, Panic)
                 | Ok d \<Rightarrow> (Some d, Ok ()))))"

text \<open>The methods of \<^verbatim>\<open>DefaultCipher\<close>.\<close>

definition DefaultCipher_Encrypt :: codecFunc where
  "DefaultCipher_Encrypt val = Ok val"

definition DefaultCipher_Decrypt :: codecFunc where
  "DefaultCipher_Decrypt ciphertext = Ok ciphertext"

definition DefaultCipher_EncryptInto :: "string option \<Rightarrow> string option \<times> unit result" where
  "DefaultCipher_EncryptInto s = into DefaultCipher_Encrypt s"

definition DefaultCipher_DecryptInto :: "string option \<Rightarrow> string option \<times> unit result" where
  "DefaultCipher_DecryptInto s = into DefaultCipher_Decrypt s"

text \<open>\<^verbatim>\<open>CFBCipher.Encrypt\<close> and \<^verbatim>\<open>CFBCipher.Decrypt\<close>.\<close>

definition CFBCipher_Encrypt :: "bytes \<Rightarrow> Block \<Rightarrow> codecFunc" where
  "CFBCipher_Encrypt rnd b val =
     (case ReadFull rnd aesBlockSize of
        Err e \<Rightarrow> Err (IVError e)
      | Panic \<Rightarrow> Panic
      | Ok iv \<Rightarrow> Ok (iv @ cfbEncrypt b iv val))"

definition CFBCipher_Decrypt :: "Block \<Rightarrow> codecFunc" where
  "CFBCipher_Decrypt b ciphertext =
     (if length ciphertext < aesBlockSize
      then Err (ShortCiphertextError aesBlockSize (length ciphertext))
      else Ok (cfbDecrypt b (take aesBlockSize ciphertext) (drop aesBlockSize ciphertext)))"

text \<open>
  \<^verbatim>\<open>GCMCipher.Encrypt\<close> and \<^verbatim>\<open>GCMCipher.Decrypt\<close>. \<^verbatim>\<open>cipher.NewGCM\<close> fails only for
  a block size other than 16, which an AES block never has. In \<^verbatim>\<open>Decrypt\<close> the slice
  expression \<^verbatim>\<open>ciphertext[nonceSize:]\<close> panics when the ciphertext has fewer than
  \<^verbatim>\<open>nonceSize\<close> bytes (if \<^verbatim>\<open>ciphertext[:nonceSize]\<close> has not already).
\<close>

definition GCMCipher_Encrypt :: "bytes \<Rightarrow> Block \<Rightarrow> codecFunc" where
  "GCMCipher_Encrypt rnd b val =
     (case ReadFull rnd gcmStandardNonceSize of
        Err e \<Rightarrow> Err e
      | Panic \<Rightarrow> Panic
      | Ok nonce \<Rightarrow> gcmSeal b nonce nonce val)"

definition GCMCipher_Decrypt :: "Block \<Rightarrow> codecFunc" where
  "GCMCipher_Decrypt b ciphertext =
     (let nonceSize = gcmStandardNonceSize
      in if length ciphertext < nonceSize then Panic
         else (case gcmOpen b (take nonceSize ciphertext) (drop nonceSize ciphertext) of
                 Err e \<Rightarrow> Err e
               | Panic \<Rightarrow> Panic
               | Ok plaintext \<Rightarrow> Ok plaintext))"

text \<open>
  \<^verbatim>\<open>Encrypt\<close> and \<^verbatim>\<open>Decrypt\<close> through the interface: the method of the dynamic type.
  \<^verbatim>\<open>Base64Cipher\<close> calls the cipher it holds through the interface again. \<open>rnd\<close> is
  the random source.
\<close>

fun Encrypt :: "bytes \<Rightarrow> Cipher \<Rightarrow> codecFunc" where
  "Encrypt rnd DefaultCipher val = DefaultCipher_Encrypt val"
| "Encrypt rnd (Base64Cipher c) val =
     (case Encrypt rnd c val of
        Err e \<Rightarrow> Err e
      | Panic \<Rightarrow> Panic
      | Ok encrypted \<Rightarrow> Ok (EncodeToString StdEncoding encrypted))"
| "Encrypt rnd (CFBCipher b) val = CFBCipher_Encrypt rnd b val"
| "Encrypt rnd (GCMCipher b) val = GCMCipher_Encrypt rnd b val"

fun Decrypt :: "Cipher \<Rightarrow> codecFunc" where
  "Decrypt DefaultCipher ciphertext = DefaultCipher_Decrypt ciphertext"
| "Decrypt (Base64Cipher c) ciphertext =
     (case DecodeString StdEncoding ciphertext of
        None \<Rightarrow> Err (Base64DecodeError CorruptInputError)
      | Some encrypted \<Rightarrow> Decrypt c encrypted)"
| "Decrypt (CFBCipher b) ciphertext = CFBCipher_Decrypt b ciphertext"
| "Decrypt (GCMCipher b) ciphertext = GCMCipher_Decrypt b ciphertext"

text \<open>
  \<^verbatim>\<open>EncryptInto\<close> and \<^verbatim>\<open>DecryptInto\<close> through the interface. Only \<^verbatim>\<open>DefaultCipher\<close>
  declares them; the other three types get them by embedding. A promoted method runs
  with the embedded \<^verbatim>\<open>DefaultCipher\<close> as its receiver, so the \<^verbatim>\<open>c.Encrypt\<close> it hands
  to \<^verbatim>\<open>into\<close> is \<^verbatim>\<open>DefaultCipher.Encrypt\<close>, whatever the outer type is.
\<close>

fun EncryptInto :: "Cipher \<Rightarrow> string option \<Rightarrow> string option \<times> unit result" where
  "EncryptInto DefaultCipher s = DefaultCipher_EncryptInto s"
| "EncryptInto (Base64Cipher c) s = DefaultCipher_EncryptInto s"
| "EncryptInto (CFBCipher b) s = DefaultCipher_EncryptInto s"
| "EncryptInto (GCMCipher b) s = DefaultCipher_EncryptInto s"

fun DecryptInto :: "Cipher \<Rightarrow> string option \<Rightarrow> string option \<times> unit result" where
  "DecryptInto DefaultCipher s = DefaultCipher_DecryptInto s"
| "DecryptInto (Base64Cipher c) s = DefaultCipher_DecryptInto s"
| "DecryptInto (CFBCipher b) s = DefaultCipher_DecryptInto s"
| "DecryptInto (GCMCipher b) s = DefaultCipher_DecryptInto s"

text \<open>The constructors.\<close>

definition NewCFBCipher :: "(bytes \<Rightarrow> Block) \<Rightarrow> bytes \<Rightarrow> Cipher result" where
  "NewCFBCipher aes secret =
     (case aesNewCipher aes secret of
        Err e \<Rightarrow> Err e
      | Panic \<Rightarrow> Panic
      | Ok c \<Rightarrow> Ok (CFBCipher c))"

definition NewGCMCipher :: "(bytes \<Rightarrow> Block) \<Rightarrow> bytes \<Rightarrow> Cipher result" where
  "NewGCMCipher aes secret =
     (case aesNewCipher aes secret of
        Err e \<Rightarrow> Err e
      | Panic \<Rightarrow> Panic
      | Ok c \<Rightarrow> Ok (GCMCipher c))"

definition NewBase64Cipher :: "(bytes \<Rightarrow> Cipher result) \<Rightarrow> bytes \<Rightarrow> Cipher result" where
  "NewBase64Cipher initCipher secret =
     (case initCipher secret of
        Err e \<Rightarrow> Err e
      | Panic \<Rightarrow> Panic
      | Ok c \<Rightarrow> Ok (Base64Cipher c))"

section \<open>An example cookie\<close>

text \<open>
  The cookie \<^verbatim>\<open>_oauth2_proxy\<close> with the value \<^verbatim>\<open>payload\<close>, signed with the seed
  \<^verbatim>\<open>secret-seed\<close> at the Unix time 1600000000: its MAC with SHA-256, the MAC of the
  same message with SHA-1, and the MAC with SHA-256 when the value field is \<^verbatim>\<open>!\<close>.
\<close>

definition macSHA256 :: bytes where
  "macSHA256 =
     [CHR 0xC8, CHR 0x22, CHR 0x5B, CHR 0xA8, CHR 0xA9, CHR 0xBB, CHR 0x82, CHR 0xDB,
      CHR 0xD9, CHR 0xA8, CHR 0xD3, CHR 0x73, CHR 0x99, CHR 0xAD, CHR 0x27, CHR 0xF9,
      CHR 0x88, CHR 0xFB, CHR 0xCF, CHR 0xAB, CHR 0xA1, CHR 0x8C, CHR 0x52, CHR 0x21,
      CHR 0x07, CHR 0x8E, CHR 0x6D, CHR 0xA7, CHR 0xE2, CHR 0x36, CHR 0x8F, CHR 0x23]"

definition macSHA1 :: bytes where
  "macSHA1 =
     [CHR 0xBF, CHR 0x61, CHR 0xB3, CHR 0xD3, CHR 0x35, CHR 0xE2, CHR 0x75, CHR 0xC9,
      CHR 0x76, CHR 0x81, CHR 0x00, CHR 0x44, CHR 0xF6, CHR 0xC1, CHR 0xBD, CHR 0xD2,
      CHR 0xB2, CHR 0xAA, CHR 0xD1, CHR 0xFD]"

definition macBadValue :: bytes where
  "macBadValue =
     [CHR 0xBE, CHR 0x9E, CHR 0x47, CHR 0x26, CHR 0x45, CHR 0xCE, CHR 0x2B, CHR 0x3F,
      CHR 0x8D, CHR 0x0B, CHR 0x0E, CHR 0xCC, CHR 0x03, CHR 0xDB, CHR 0x3F, CHR 0x43,
      CHR 0xE1, CHR 0x8E, CHR 0x5D, CHR 0x42, CHR 0x37, CHR 0x78, CHR 0xD7, CHR 0xCF,
      CHR 0xE8, CHR 0x2A, CHR 0x6D, CHR 0xA9, CHR 0x6C, CHR 0x0B, CHR 0x71, CHR 0x2D]"

text \<open>The MAC with SHA-256 when the timestamp field is \<^verbatim>\<open>16e8\<close>, which is not an integer.\<close>

definition macBadTime :: bytes where
  "macBadTime =
     [CHR 0x2C, CHR 0x62, CHR 0xE6, CHR 0x5D, CHR 0x84, CHR 0x3D, CHR 0x29, CHR 0xD1,
      CHR 0x26, CHR 0x6E, CHR 0x0B, CHR 0x86, CHR 0x91, CHR 0x99, CHR 0x10, CHR 0xA3,
      CHR 0x79, CHR 0x99, CHR 0x0D, CHR 0xF0, CHR 0x45, CHR 0xB3, CHR 0x68, CHR 0xC0,
      CHR 0x04, CHR 0x20, CHR 0x7F, CHR 0x84, CHR 0x7D, CHR 0x8D, CHR 0x38, CHR 0x7F]"

section \<open>Facts about the standard library\<close>

subsection \<open>Base64: decoding an encoding gives the bytes back\<close>

lemma indexByte_nth:
  "distinct xs \<Longrightarrow> n < length xs \<Longrightarrow> indexByte xs (xs ! n) = Some n"
proof (induction xs arbitrary: n)
  case Nil
  then show ?case by simp
next
  case (Cons x xs)
  show ?case
  proof (cases n)
    case 0
    then show ?thesis by simp
  next
    case (Suc m)
    with Cons.prems have "xs ! m \<noteq> x" "m < length xs" "distinct xs"
      by auto
    with Cons.IH [of m] Suc show ?thesis
      by auto
  qed
qed

lemma indexByte_notin:
  "c \<notin> set xs \<Longrightarrow> indexByte xs c = None"
  by (induction xs) auto

lemma distinct_encodeStd: "distinct encodeStd"
  by code_simp
lemma length_encodeStd: "length encodeStd = 64"
  by (simp add: encodeStd_def)
lemma pad_notin_encodeStd: "CHR ''='' \<notin> set encodeStd"
  by (simp add: encodeStd_def)

lemma distinct_encodeURL: "distinct encodeURL"
  by code_simp

lemma length_encodeURL: "length encodeURL = 64"
  by (simp add: encodeURL_def)

lemma pad_notin_encodeURL: "CHR ''='' \<notin> set encodeURL"
  by (simp add: encodeURL_def)

lemma sextet_bounds:
  fixes a b c :: nat
  assumes "a < 256" "b < 256" "c < 256"
  shows "a div 4 < 64" "(a mod 4) * 16 + b div 16 < 64" "(b mod 16) * 4 + c div 64 < 64"
    "c mod 64 < 64" "(a mod 4) * 16 < 64" "(b mod 16) * 4 < 64"
  using assms by auto

lemma sextet_join1:
  fixes a b :: nat
  assumes "b < 256"
  shows "a div 4 * 4 + ((a mod 4) * 16 + b div 16) div 16 = a"
proof -
  have "b div 16 < 16" using assms by auto
  then have "((a mod 4) * 16 + b div 16) div 16 = a mod 4"
    by simp
  then show ?thesis by simp
qed

lemma sextet_join2:
  fixes a b c :: nat
  assumes "b < 256" "c < 256"
  shows "(((a mod 4) * 16 + b div 16) mod 16) * 16 + ((b mod 16) * 4 + c div 64) div 4 = b"
proof -
  have "c div 64 < 4" using assms by auto
  then have "((b mod 16) * 4 + c div 64) div 4 = b mod 16"
    by simp
  moreover have "((a mod 4) * 16 + b div 16) mod 16 = b div 16 mod 16"
    by simp
  moreover have "b div 16 < 16" using assms by auto
  ultimately show ?thesis by simp
qed

lemma sextet_join3:
  fixes b c :: nat
  assumes "c < 256"
  shows "(((b mod 16) * 4 + c div 64) mod 4) * 64 + c mod 64 = c"
proof -
  have "c div 64 < 4" using assms by auto
  then have "((b mod 16) * 4 + c div 64) mod 4 = c div 64"
    by simp
  then show ?thesis by simp
qed

lemma decodeMap_encode:
  assumes "distinct (encode enc)" and "length (encode enc) = 64" and "n < 64"
  shows "decodeMap enc (encode enc ! n) = Some n"
  using assms by (simp add: decodeMap_def indexByte_nth)

lemma decodeMap_pad:
  assumes "p \<notin> set (encode enc)"
  shows "decodeMap enc p = None"
  using assms by (simp add: decodeMap_def indexByte_notin)

lemma quantumBytes_full:
  "quantumBytes [of_char a div 4, of_char a mod 4 * 16 + of_char b div 16,
     of_char b mod 16 * 4 + of_char c div 64, of_char c mod 64] = [a, b, c]"
proof -
  have lt: "(of_char a :: nat) < 256" "(of_char b :: nat) < 256" "(of_char c :: nat) < 256"
    by simp_all
  show ?thesis
    by (simp only: quantumBytes.simps sextet_join1 [OF lt(2)] sextet_join2 [OF lt(2,3)]
        sextet_join3 [OF lt(3)] char_of_char)
qed

lemma quantumBytes_two:
  "quantumBytes [of_char a div 4, of_char a mod 4 * 16 + of_char b div 16,
     of_char b mod 16 * 4] = [a, b]"
proof -
  have lt: "(of_char a :: nat) < 256" "(of_char b :: nat) < 256" "(0 :: nat) < 256"
    by simp_all
  have "(of_char a mod 4 * 16 + of_char b div 16) mod 16 * 16 + (of_char b mod 16 * 4 + 0 div 64) div 4
      = (of_char b :: nat)"
    by (rule sextet_join2 [OF lt(2,3)])
  then have j2: "(of_char a mod 4 * 16 + of_char b div 16) mod 16 * 16 + (of_char b mod 16 * 4) div 4
      = (of_char b :: nat)"
    by simp
  show ?thesis
    by (simp only: quantumBytes.simps sextet_join1 [OF lt(2)] j2 char_of_char)
qed

lemma quantumBytes_one:
  "quantumBytes [of_char a div 4, of_char a mod 4 * 16] = [a]"
proof -
  have "of_char a div 4 * 4 + (of_char a mod 4 * 16 + 0 div 16) div 16 = (of_char a :: nat)"
    by (rule sextet_join1) simp
  then have j1: "of_char a div 4 * 4 + (of_char a mod 4 * 16) div 16 = (of_char a :: nat)"
    by simp
  show ?thesis
    by (simp only: quantumBytes.simps j1 char_of_char)
qed

lemma decodeQuanta_EncodeToString:
  assumes "distinct (encode enc)" and "length (encode enc) = 64"
    and "\<forall>p. padChar enc = Some p \<longrightarrow> p \<notin> set (encode enc) \<and> \<not> isNewline p"
  shows "decodeQuanta enc [] (EncodeToString enc bs) = Some bs"
  using assms
proof (induction enc bs rule: EncodeToString.induct)
  case (1 enc a b c rest)
  have lt: "(of_char a :: nat) < 256" "(of_char b :: nat) < 256" "(of_char c :: nat) < 256"
    by simp_all
  from 1 have ih: "decodeQuanta enc [] (EncodeToString enc rest) = Some rest"
    by simp
  show ?case
    using 1(2,3) ih
    by (simp add: decodeMap_encode sextet_bounds [OF lt] quantumBytes_full
        del: quantumBytes.simps)
next
  case (2 enc a b)
  have lt: "(of_char a :: nat) < 256" "(of_char b :: nat) < 256" "(0 :: nat) < 256"
    by simp_all
  show ?case
  proof (cases "padChar enc")
    case None
    then show ?thesis
      using 2
      by (simp add: padding_def decodeMap_encode sextet_bounds [OF lt] quantumBytes_two
          del: quantumBytes.simps)
  next
    case (Some p)
    with 2 have "decodeMap enc p = None" "\<not> isNewline p"
      by (simp_all add: decodeMap_pad)
    then show ?thesis
      using 2 Some
      by (simp add: padding_def decodeMap_encode sextet_bounds [OF lt] quantumBytes_two
          del: quantumBytes.simps)
  qed
next
  case (3 enc a)
  have lt: "(of_char a :: nat) < 256" "(0 :: nat) < 256" "(0 :: nat) < 256"
    by simp_all
  show ?case
  proof (cases "padChar enc")
    case None
    then show ?thesis
      using 3
      by (simp add: padding_def decodeMap_encode sextet_bounds [OF lt] quantumBytes_one
          del: quantumBytes.simps)
  next
    case (Some p)
    with 3 have "decodeMap enc p = None" "\<not> isNewline p"
      by (simp_all add: decodeMap_pad)
    then show ?thesis
      using 3 Some
      by (simp add: padding_def decodeMap_encode sextet_bounds [OF lt] quantumBytes_one
          del: quantumBytes.simps)
  qed
next
  case (4 enc)
  then show ?case by simp
qed

lemma DecodeString_EncodeToString_Std:
  "DecodeString StdEncoding (EncodeToString StdEncoding bs) = Some bs"
  unfolding DecodeString_def
  by (rule decodeQuanta_EncodeToString)
    (simp_all add: StdEncoding_def distinct_encodeStd length_encodeStd pad_notin_encodeStd
      isNewline_def)

lemma DecodeString_EncodeToString_URL:
  "DecodeString URLEncoding (EncodeToString URLEncoding bs) = Some bs"
  unfolding DecodeString_def
  by (rule decodeQuanta_EncodeToString)
    (simp_all add: URLEncoding_def distinct_encodeURL length_encodeURL pad_notin_encodeURL
      isNewline_def)

subsection \<open>The stream modes undo themselves\<close>

lemma xorByte_cancel: "xorByte (xorByte a k) k = a"
proof -
  have "take_bit 8 (take_bit 8 ((of_char a :: nat) XOR of_char k) XOR of_char k)
      = take_bit 8 (((of_char a :: nat) XOR of_char k) XOR of_char k)"
    by (simp add: take_bit_xor)
  also have "\<dots> = take_bit 8 (of_char a :: nat)"
    by (simp add: xor.assoc)
  also have "\<dots> = of_char a"
    by (simp add: take_bit_eq_mod)
  finally show ?thesis
    by (simp add: xorByte_def char_of_eq_iff take_bit_eq_mod)
qed

lemma length_XORBytes: "length (XORBytes x y) = min (length x) (length y)"
  by (simp add: XORBytes_def)

lemma XORBytes_cancel:
  "length x \<le> length k \<Longrightarrow> XORBytes (XORBytes x k) k = x"
proof (induction x arbitrary: k)
  case Nil
  then show ?case by (simp add: XORBytes_def)
next
  case (Cons a x)
  then obtain c k' where k: "k = c # k'"
    by (cases k) auto
  with Cons show ?case
    by (simp add: XORBytes_def xorByte_cancel)
qed

lemma cfbDecrypt_cfbEncrypt:
  assumes blk: "\<forall>x. length (b x) = aesBlockSize"
  shows "cfbDecrypt b prev (cfbEncrypt b prev src) = src"
  using blk
proof (induction b prev src rule: cfbEncrypt.induct)
  case (1 b prev src)
  show ?case
  proof (cases "src = []")
    case True
    then show ?thesis
      by (simp add: cfbEncrypt.simps cfbDecrypt.simps)
  next
    case False
    define dst where "dst = XORBytes (take aesBlockSize src) (b prev)"
    define rest where "rest = cfbEncrypt b dst (drop aesBlockSize src)"
    have len_b: "length (b prev) = aesBlockSize"
      using "1.prems" by simp
    have enc: "cfbEncrypt b prev src = dst @ rest"
      using False by (subst cfbEncrypt.simps) (simp add: dst_def rest_def Let_def)
    have len_dst: "length dst = min (length src) aesBlockSize"
      by (simp add: dst_def length_XORBytes len_b)
    have dst_ne: "dst \<noteq> []"
      using False len_dst by (cases src) (auto simp: aesBlockSize_def)
    have undo: "XORBytes dst (b prev) = take aesBlockSize src"
      unfolding dst_def by (rule XORBytes_cancel) (simp add: len_b)
    have ih: "cfbDecrypt b dst rest = drop aesBlockSize src"
      unfolding rest_def using "1.IH" [OF False dst_def] "1.prems" by simp
    have split: "take aesBlockSize (dst @ rest) = dst \<and> drop aesBlockSize (dst @ rest) = rest"
    proof (cases "aesBlockSize \<le> length src")
      case True
      then have "length dst = aesBlockSize"
        using len_dst by simp
      then show ?thesis by simp
    next
      case short: False
      then have "rest = []"
        by (simp add: rest_def cfbEncrypt.simps)
      moreover have "length dst < aesBlockSize"
        using short len_dst by simp
      ultimately show ?thesis by simp
    qed
    have "cfbDecrypt b prev (dst @ rest)
        = XORBytes (take aesBlockSize (dst @ rest)) (b prev)
            @ cfbDecrypt b (take aesBlockSize (dst @ rest)) (drop aesBlockSize (dst @ rest))"
      using dst_ne by (subst cfbDecrypt.simps) simp
    also have "\<dots> = take aesBlockSize src @ drop aesBlockSize src"
      by (simp only: split undo ih)
    finally show ?thesis
      by (simp add: enc)
  qed
qed

lemma length_intToBytes: "length (intToBytes k n) = k"
  by (induction k n rule: intToBytes.induct) simp_all

lemma gcmCounterCrypt_involution:
  assumes blk: "\<forall>x. length (b x) = aesBlockSize"
  shows "gcmCounterCrypt b nonce ctr (gcmCounterCrypt b nonce ctr src) = src"
  using blk
proof (induction b nonce ctr src rule: gcmCounterCrypt.induct)
  case (1 b nonce ctr src)
  show ?case
  proof (cases "src = []")
    case True
    then show ?thesis
      by (simp add: gcmCounterCrypt.simps)
  next
    case False
    define ks where "ks = b (nonce @ intToBytes 4 ctr)"
    define dst where "dst = XORBytes (take 16 src) ks"
    define rest where "rest = gcmCounterCrypt b nonce ((ctr + 1) mod 4294967296) (drop 16 src)"
    have len_ks: "length ks = 16"
      using "1.prems" by (simp add: ks_def aesBlockSize_def)
    have enc: "gcmCounterCrypt b nonce ctr src = dst @ rest"
      using False by (subst gcmCounterCrypt.simps) (simp add: dst_def rest_def ks_def)
    have len_dst: "length dst = min (length src) 16"
      by (simp add: dst_def length_XORBytes len_ks)
    have dst_ne: "dst \<noteq> []"
      using False len_dst by (cases src) auto
    have undo: "XORBytes dst ks = take 16 src"
      unfolding dst_def by (rule XORBytes_cancel) (simp add: len_ks)
    have ih: "gcmCounterCrypt b nonce ((ctr + 1) mod 4294967296) rest = drop 16 src"
      unfolding rest_def using "1.IH" [OF False] "1.prems" by simp
        have split: "take 16 (dst @ rest) = dst \<and> drop 16 (dst @ rest) = rest"
    proof (cases "16 \<le> length src")
      case True
      then have "length dst = 16"
        using len_dst by simp
      then show ?thesis by simp
    next
      case short: False
      then have "rest = []"
        by (simp add: rest_def gcmCounterCrypt.simps)
      moreover have "length dst < 16"
        using short len_dst by simp
      ultimately show ?thesis by simp
    qed
    have "gcmCounterCrypt b nonce ctr (dst @ rest)
        = XORBytes (take 16 (dst @ rest)) ks
            @ gcmCounterCrypt b nonce ((ctr + 1) mod 4294967296) (drop 16 (dst @ rest))"
      using dst_ne by (subst gcmCounterCrypt.simps) (simp add: ks_def)
    also have "\<dots> = take 16 src @ drop 16 src"
      by (simp only: split undo ih)
    finally show ?thesis
      by (simp add: enc)
  qed
qed

lemma length_gcmTag:
  assumes "\<forall>x. length (b x) = aesBlockSize"
  shows "length (gcmTag b nonce ct) = gcmTagSize"
  using assms
  by (simp add: gcmTag_def Let_def length_XORBytes length_intToBytes gcmTagSize_def
      aesBlockSize_def)

lemma gcmOpen_gcmSeal:
  assumes blk: "\<forall>x. length (b x) = aesBlockSize"
    and nonce: "length nonce = gcmStandardNonceSize"
  shows "\<exists>sealed. gcmSeal b dst nonce plaintext = Ok (dst @ sealed)
           \<and> gcmOpen b nonce sealed = Ok plaintext"
proof -
  define ct where "ct = gcmCounterCrypt b nonce 2 plaintext"
  define tag where "tag = gcmTag b nonce ct"
  have len_tag: "length tag = gcmTagSize"
    unfolding tag_def by (rule length_gcmTag [OF blk])
  have seal: "gcmSeal b dst nonce plaintext = Ok (dst @ ct @ tag)"
    using nonce by (simp add: gcmSeal_def ct_def tag_def Let_def)
  have "gcmOpen b nonce (ct @ tag) = Ok (gcmCounterCrypt b nonce 2 ct)"
    using nonce len_tag by (simp add: gcmOpen_def Let_def tag_def)
  also have "gcmCounterCrypt b nonce 2 ct = plaintext"
    unfolding ct_def by (rule gcmCounterCrypt_involution [OF blk])
  finally show ?thesis
    using seal by blast
qed

section \<open>Encrypting and decrypting\<close>

lemma CFBCipher_round_trip:
  assumes blk: "\<forall>x. length (b x) = aesBlockSize"
    and rnd: "aesBlockSize \<le> length rnd"
  shows "\<exists>ct. Encrypt rnd (CFBCipher b) v = Ok ct \<and> Decrypt (CFBCipher b) ct = Ok v"
proof -
  define iv where "iv = take aesBlockSize rnd"
  have len_iv: "length iv = aesBlockSize"
    using rnd by (simp add: iv_def)
  have enc: "Encrypt rnd (CFBCipher b) v = Ok (iv @ cfbEncrypt b iv v)"
    using rnd by (simp add: CFBCipher_Encrypt_def ReadFull_def iv_def)
  have "Decrypt (CFBCipher b) (iv @ cfbEncrypt b iv v) = Ok (cfbDecrypt b iv (cfbEncrypt b iv v))"
    using len_iv by (simp add: CFBCipher_Decrypt_def)
  then show ?thesis
    using enc cfbDecrypt_cfbEncrypt [OF blk] by simp
qed

lemma GCMCipher_round_trip:
  assumes blk: "\<forall>x. length (b x) = aesBlockSize"
    and rnd: "gcmStandardNonceSize \<le> length rnd"
  shows "\<exists>ct. Encrypt rnd (GCMCipher b) v = Ok ct \<and> Decrypt (GCMCipher b) ct = Ok v"
proof -
  define nonce where "nonce = take gcmStandardNonceSize rnd"
  have len_nonce: "length nonce = gcmStandardNonceSize"
    using rnd by (simp add: nonce_def)
  obtain sealed where seal: "gcmSeal b nonce nonce v = Ok (nonce @ sealed)"
    and opn: "gcmOpen b nonce sealed = Ok v"
    using gcmOpen_gcmSeal [OF blk len_nonce] by blast
  have enc: "Encrypt rnd (GCMCipher b) v = Ok (nonce @ sealed)"
    using rnd seal by (simp add: GCMCipher_Encrypt_def ReadFull_def nonce_def)
  have "Decrypt (GCMCipher b) (nonce @ sealed) = Ok v"
    using len_nonce opn by (simp add: GCMCipher_Decrypt_def Let_def)
  then show ?thesis
    using enc by simp
qed

lemma Base64Cipher_round_trip:
  assumes "\<exists>ct. Encrypt rnd c v = Ok ct \<and> Decrypt c ct = Ok v"
  shows "\<exists>ct. Encrypt rnd (Base64Cipher c) v = Ok ct \<and> Decrypt (Base64Cipher c) ct = Ok v"
  using assms by (auto simp: DecodeString_EncodeToString_Std)

text \<open>
  Claim C6. Take any block function with blocks of 16 bytes for AES, a key that a
  constructor accepts, and a random source that still has 16 bytes. Then for the
  AES-CFB cipher, the AES-GCM cipher and the base64 decorator over either of them,
  \<^verbatim>\<open>Encrypt\<close> of any payload returns a ciphertext, whatever initialisation vector or
  nonce it draws, and \<^verbatim>\<open>Decrypt\<close> of that ciphertext returns the payload.
\<close>

theorem Decrypt_Encrypt_round_trip:
  assumes blk: "\<forall>key x. length (aes key x) = aesBlockSize"
    and new: "NewCFBCipher aes secret = Ok c \<or> NewGCMCipher aes secret = Ok c
      \<or> NewBase64Cipher (NewCFBCipher aes) secret = Ok c
      \<or> NewBase64Cipher (NewGCMCipher aes) secret = Ok c"
    and rnd: "aesBlockSize \<le> length rnd"
  shows "\<exists>ct. Encrypt rnd c v = Ok ct \<and> Decrypt c ct = Ok v"
proof -
  let ?b = "aes secret"
  have b: "\<forall>x. length (?b x) = aesBlockSize"
    using blk by simp
  have rnd': "gcmStandardNonceSize \<le> length rnd"
    using rnd by (simp add: aesBlockSize_def gcmStandardNonceSize_def)
  from new consider
      "c = CFBCipher ?b" | "c = GCMCipher ?b"
    | "c = Base64Cipher (CFBCipher ?b)" | "c = Base64Cipher (GCMCipher ?b)"
    by (auto simp: NewCFBCipher_def NewGCMCipher_def NewBase64Cipher_def aesNewCipher_def
        split: if_splits result.splits)
  then show ?thesis
  proof cases
    case 1
    then show ?thesis
      using CFBCipher_round_trip [OF b rnd] by simp
  next
    case 2
    then show ?thesis
      using GCMCipher_round_trip [OF b rnd'] by simp
  next
    case 3
    then show ?thesis
      using Base64Cipher_round_trip [OF CFBCipher_round_trip [OF b rnd]] by simp
  next
    case 4
    then show ?thesis
      using Base64Cipher_round_trip [OF GCMCipher_round_trip [OF b rnd']] by simp
  qed
qed

theorem Decrypt_Encrypt_round_trip_witness:
  "(\<forall>key x. length ((\<lambda>key x. replicate 16 (CHR ''k'')) key x) = aesBlockSize) \<and>
   NewBase64Cipher (NewGCMCipher (\<lambda>key x. replicate 16 (CHR ''k''))) ''0123456789abcdef''
     = Ok (Base64Cipher (GCMCipher (\<lambda>x. replicate 16 (CHR ''k'')))) \<and>
   aesBlockSize \<le> length ''fedcba9876543210'' \<and>
   (\<exists>ct. Encrypt ''fedcba9876543210'' (Base64Cipher (GCMCipher (\<lambda>x. replicate 16 (CHR ''k''))))
            ''payload'' = Ok ct
        \<and> Decrypt (Base64Cipher (GCMCipher (\<lambda>x. replicate 16 (CHR ''k'')))) ct = Ok ''payload'')"
proof -
  have blk: "\<forall>key x. length ((\<lambda>key x. replicate 16 (CHR ''k'')) key x) = aesBlockSize"
    by (simp add: aesBlockSize_def)
  have new: "NewBase64Cipher (NewGCMCipher (\<lambda>key x. replicate 16 (CHR ''k''))) ''0123456789abcdef''
      = Ok (Base64Cipher (GCMCipher (\<lambda>x. replicate 16 (CHR ''k''))))"
    by (simp add: NewBase64Cipher_def NewGCMCipher_def aesNewCipher_def)
  have rnd: "aesBlockSize \<le> length ''fedcba9876543210''"
    by (simp add: aesBlockSize_def)
  show ?thesis
    using blk new rnd
      Decrypt_Encrypt_round_trip [of "\<lambda>key x. replicate 16 (CHR ''k'')" "''0123456789abcdef''"
        "Base64Cipher (GCMCipher (\<lambda>x. replicate 16 (CHR ''k'')))" "''fedcba9876543210''"
        "''payload''"]
    by blast
qed

section \<open>Secrets\<close>

lemma rangeAESLengths_eq:
  "rangeAESLengths [16, 24, 32] b
     = (if length b = 16 \<or> length b = 24 \<or> length b = 32 then Some b else None)"
  by simp

lemma takeWhile_eq_replicate:
  "takeWhile (\<lambda>x. x = c) xs = replicate (length (takeWhile (\<lambda>x. x = c) xs)) c"
  by (induction xs) auto

lemma TrimRight_trailing:
  "\<exists>k. s = TrimRight s c @ replicate k c"
proof -
  have "rev s = takeWhile (\<lambda>x. x = c) (rev s) @ dropWhile (\<lambda>x. x = c) (rev s)"
    by (simp only: takeWhile_dropWhile_id)
  then have "rev (rev s) = rev (takeWhile (\<lambda>x. x = c) (rev s) @ dropWhile (\<lambda>x. x = c) (rev s))"
    by (simp only:)
  then have "s = rev (takeWhile (\<lambda>x. x = c) (rev s) @ dropWhile (\<lambda>x. x = c) (rev s))"
    by (simp only: rev_rev_ident)
  also have "\<dots> = TrimRight s c @ rev (takeWhile (\<lambda>x. x = c) (rev s))"
    by (simp only: TrimRight_def rev_append)
  also have "rev (takeWhile (\<lambda>x. x = c) (rev s))
      = replicate (length (takeWhile (\<lambda>x. x = c) (rev s))) c"
    using takeWhile_eq_replicate [of c "rev s"] by (metis rev_replicate)
  finally show ?thesis
    by blast
qed

lemma TrimRight_last:
  "TrimRight s c = [] \<or> last (TrimRight s c) \<noteq> c"
proof (cases "dropWhile (\<lambda>x. x = c) (rev s)")
  case Nil
  then show ?thesis
    by (simp add: TrimRight_def)
next
  case (Cons y ys)
  then have "y \<noteq> c"
    using hd_dropWhile [of "\<lambda>x. x = c" "rev s"] by auto
  with Cons show ?thesis
    by (simp add: TrimRight_def)
qed

text \<open>
  Claim C7. \<^verbatim>\<open>SecretBytes\<close> is a function of its argument alone and has no failing
  branch. When the string without its trailing \<^verbatim>\<open>=\<close> characters decodes as unpadded
  URL-safe base64 to 16, 24 or 32 bytes, the result is the decoded bytes; when it does
  not decode, or decodes to another number of bytes, the result is the string itself.
  (What is decoded is the string less a run of \<^verbatim>\<open>=\<close> at its end, and does not end in
  \<^verbatim>\<open>=\<close> itself.)
\<close>

theorem SecretBytes_cases:
  "SecretBytes s =
     (case DecodeString RawURLEncoding (TrimRight s CHR ''='') of
        None \<Rightarrow> s
      | Some b \<Rightarrow> if length b \<in> {16, 24, 32} then b else s)
   \<and> (\<exists>k. s = TrimRight s CHR ''='' @ replicate k CHR ''='')
   \<and> (TrimRight s CHR ''='' = [] \<or> last (TrimRight s CHR ''='') \<noteq> CHR ''='')"
  using TrimRight_trailing [of s "CHR ''=''"] TrimRight_last [of s "CHR ''=''"]
  by (simp add: SecretBytes_def split: option.splits)

lemma SecretBytes_examples_decode:
  "DecodeString RawURLEncoding ''MDEyMzQ1Njc4OWFiY2RlZg'' = Some ''0123456789abcdef''"
  "DecodeString RawURLEncoding ''MDEyMzQ1Njc4OWFiY2RlZmc'' = Some ''0123456789abcdefg''"
  "DecodeString RawURLEncoding ''0123456789abcdef''
     = Some [CHR 0xD3, CHR 0x5D, CHR 0xB7, CHR 0xE3, CHR 0x9E, CHR 0xBB,
             CHR 0xF3, CHR 0xD6, CHR 0x9B, CHR 0x71, CHR 0xD7, CHR 0x9F]"
  "DecodeString RawURLEncoding ''not base64!'' = None"
  by code_simp+

theorem SecretBytes_cases_witness:
  "SecretBytes ''MDEyMzQ1Njc4OWFiY2RlZg'' = ''0123456789abcdef'' \<and>
   SecretBytes ''MDEyMzQ1Njc4OWFiY2RlZg=='' = ''0123456789abcdef'' \<and>
   SecretBytes ''MDEyMzQ1Njc4OWFiY2RlZmc='' = ''MDEyMzQ1Njc4OWFiY2RlZmc='' \<and>
   SecretBytes ''0123456789abcdef'' = ''0123456789abcdef'' \<and>
   SecretBytes ''not base64!'' = ''not base64!''"
  using SecretBytes_cases [of "''MDEyMzQ1Njc4OWFiY2RlZg''"]
    SecretBytes_cases [of "''MDEyMzQ1Njc4OWFiY2RlZg==''"]
    SecretBytes_cases [of "''MDEyMzQ1Njc4OWFiY2RlZmc=''"]
    SecretBytes_cases [of "''0123456789abcdef''"]
    SecretBytes_cases [of "''not base64!''"]
  by (simp add: TrimRight_def SecretBytes_examples_decode)

section \<open>The in-place operations\<close>

lemma into_DefaultCipher_Encrypt:
  "into DefaultCipher_Encrypt s = (s, Ok ())"
  by (cases s) (simp_all add: into_def DefaultCipher_Encrypt_def)

lemma into_DefaultCipher_Decrypt:
  "into DefaultCipher_Decrypt s = (s, Ok ())"
  by (cases s) (simp_all add: into_def DefaultCipher_Decrypt_def)

lemma EncryptInto_unchanged:
  "EncryptInto c s = (s, Ok ())"
  by (cases c) (simp_all add: DefaultCipher_EncryptInto_def into_DefaultCipher_Encrypt)

lemma DecryptInto_unchanged:
  "DecryptInto c s = (s, Ok ())"
  by (cases c) (simp_all add: DefaultCipher_DecryptInto_def into_DefaultCipher_Decrypt)

text \<open>
  Claim C9. For every cipher, and for every transform handed to \<^verbatim>\<open>into\<close>, the in-place
  operations on a \<^verbatim>\<open>nil\<close> pointer or on a pointer to the empty string leave the string
  as it is and return the \<^verbatim>\<open>nil\<close> error.
\<close>

theorem into_nil_or_empty_noop:
  "into f None = (None, Ok ()) \<and> into f (Some []) = (Some [], Ok ()) \<and>
   EncryptInto c None = (None, Ok ()) \<and> EncryptInto c (Some []) = (Some [], Ok ()) \<and>
   DecryptInto c None = (None, Ok ()) \<and> DecryptInto c (Some []) = (Some [], Ok ())"
  by (simp add: into_def EncryptInto_unchanged DecryptInto_unchanged)

text \<open>
  The helper \<^verbatim>\<open>into\<close> is atomic on failure: when the transform it is handed returns an
  error on the bytes of a string that is not empty, the string stays as it was and
  \<^verbatim>\<open>into\<close> returns that same error.
\<close>

lemma into_error_atomic:
  assumes "str \<noteq> []" and "f str = Err e"
  shows "into f (Some str) = (Some str, Err e)"
  using assms by (simp add: into_def)

lemma DecodeString_Std_bang:
  "DecodeString StdEncoding ''!'' = None"
  by (simp add: DecodeString_def StdEncoding_def encodeStd_def decodeMap_def isNewline_def)

text \<open>
  Claim C10 says that \<^verbatim>\<open>EncryptInto\<close> and \<^verbatim>\<open>DecryptInto\<close> leave the string as it is
  and return the error when the transform of the cipher returns one. The code leaves
  the string, but does not return the error: the methods hand \<^verbatim>\<open>into\<close> the transform
  of \<^verbatim>\<open>DefaultCipher\<close>, which never fails, not the cipher's own. For the base64
  decorator \<^verbatim>\<open>Decrypt\<close> of \<^verbatim>\<open>!\<close> is an error and \<^verbatim>\<open>DecryptInto\<close> returns \<^verbatim>\<open>nil\<close>; for
  an AES-CFB cipher \<^verbatim>\<open>Decrypt\<close> of the 3 bytes \<^verbatim>\<open>abc\<close> is an error and \<^verbatim>\<open>DecryptInto\<close>
  returns \<^verbatim>\<open>nil\<close>; and no cipher's \<^verbatim>\<open>EncryptInto\<close> or \<^verbatim>\<open>DecryptInto\<close> ever returns an
  error.
\<close>

theorem DecryptInto_drops_error:
  "Decrypt (Base64Cipher DefaultCipher) ''!'' = Err (Base64DecodeError CorruptInputError) \<and>
   DecryptInto (Base64Cipher DefaultCipher) (Some ''!'') = (Some ''!'', Ok ()) \<and>
   Decrypt (CFBCipher b) ''abc'' = Err (ShortCiphertextError 16 3) \<and>
   DecryptInto (CFBCipher b) (Some ''abc'') = (Some ''abc'', Ok ()) \<and>
   snd (EncryptInto c s) = Ok () \<and> snd (DecryptInto c s) = Ok ()"
  by (simp add: DecodeString_Std_bang CFBCipher_Decrypt_def aesBlockSize_def
      EncryptInto_unchanged DecryptInto_unchanged)

text \<open>
  Claim C2 says that \<^verbatim>\<open>EncryptInto\<close> of a cipher stores the result of that cipher's own
  \<^verbatim>\<open>Encrypt\<close>. The code does so only for \<^verbatim>\<open>DefaultCipher\<close>. For an AES-CFB cipher
  \<^verbatim>\<open>EncryptInto\<close> leaves the string \<^verbatim>\<open>hello\<close> as it is and reports success, while the
  cipher's own \<^verbatim>\<open>Encrypt\<close> never returns \<^verbatim>\<open>hello\<close>; for the base64 decorator
  \<^verbatim>\<open>DecryptInto\<close> leaves \<^verbatim>\<open>aGVsbG8=\<close> as it is, while its own \<^verbatim>\<open>Decrypt\<close> returns
  \<^verbatim>\<open>hello\<close>.
\<close>

theorem EncryptInto_skips_own_Encrypt:
  "EncryptInto (CFBCipher b) (Some ''hello'') = (Some ''hello'', Ok ()) \<and>
   Encrypt rnd (CFBCipher b) ''hello'' \<noteq> Ok ''hello'' \<and>
   DecryptInto (Base64Cipher DefaultCipher) (Some ''aGVsbG8='') = (Some ''aGVsbG8='', Ok ()) \<and>
   Decrypt (Base64Cipher DefaultCipher) ''aGVsbG8='' = Ok ''hello''"
proof -
  have "Encrypt rnd (CFBCipher b) ''hello'' \<noteq> Ok ''hello''"
  proof
    assume a: "Encrypt rnd (CFBCipher b) ''hello'' = Ok ''hello''"
    then obtain iv where iv: "ReadFull rnd aesBlockSize = Ok iv"
      and eq: "iv @ cfbEncrypt b iv ''hello'' = ''hello''"
      by (auto simp: CFBCipher_Encrypt_def split: result.splits)
    from iv have "length iv = 16"
      by (auto simp: ReadFull_def aesBlockSize_def split: if_splits)
    moreover from eq have "length (iv @ cfbEncrypt b iv ''hello'') = 5"
      by simp
    ultimately show False
      by simp
  qed
  moreover have "DecodeString StdEncoding ''aGVsbG8='' = Some ''hello''"
    by code_simp
  ultimately show ?thesis
    by (simp add: EncryptInto_unchanged DecryptInto_unchanged DefaultCipher_Decrypt_def)
qed

section \<open>Short input to the AES-GCM cipher\<close>

text \<open>A ciphertext whose tag is not the one of its bytes is an error, and nothing is decrypted.\<close>

lemma GCMCipher_Decrypt_bad_tag:
  assumes "gcmStandardNonceSize + gcmTagSize \<le> length ciphertext"
    and "gcmTag b (take gcmStandardNonceSize ciphertext)
           (take (length ciphertext - gcmStandardNonceSize - gcmTagSize)
              (drop gcmStandardNonceSize ciphertext))
         \<noteq> drop (length ciphertext - gcmTagSize) ciphertext"
  shows "Decrypt (GCMCipher b) ciphertext = Err OpenError"
  using assms
  by (simp add: GCMCipher_Decrypt_def gcmOpen_def Let_def gcmStandardNonceSize_def
      gcmTagSize_def)

text \<open>
  Claim C3 says that \<^verbatim>\<open>GCMCipher.Decrypt\<close> returns an error for an input shorter than
  the nonce. The code panics there: on the 5 bytes \<^verbatim>\<open>hello\<close> and on the empty input
  the slice expression is out of range, where \<^verbatim>\<open>CFBCipher.Decrypt\<close> checks the
  length and returns an error.
\<close>

theorem GCMCipher_Decrypt_short_panics:
  "Decrypt (GCMCipher b) ''hello'' = Panic \<and>
   Decrypt (GCMCipher b) [] = Panic \<and>
   Decrypt (CFBCipher b) ''hello'' = Err (ShortCiphertextError 16 5)"
  by (simp add: GCMCipher_Decrypt_def gcmStandardNonceSize_def CFBCipher_Decrypt_def
      aesBlockSize_def)

section \<open>Signed cookie values: helper facts\<close>

lemma Split_no_sep:
  "sep \<notin> set s \<Longrightarrow> Split s sep = [s]"
  by (induction s) auto

lemma Split_append_sep:
  "sep \<notin> set a \<Longrightarrow> Split (a @ sep # r) sep = a # Split r sep"
  by (induction a) auto

lemma Split_three:
  assumes "sep \<notin> set a" "sep \<notin> set b" "sep \<notin> set c"
  shows "Split (a @ [sep] @ b @ [sep] @ c) sep = [a, b, c]"
  using assms by (simp add: Split_append_sep Split_no_sep)

lemma set_EncodeToString:
  assumes "length (encode enc) = 64"
  shows "set (EncodeToString enc bs) \<subseteq> set (encode enc) \<union> set (padding enc)"
  using assms
proof (induction enc bs rule: EncodeToString.induct)
  case (1 enc a b c rest)
  have lt: "(of_char a :: nat) < 256" "(of_char b :: nat) < 256" "(of_char c :: nat) < 256"
    by simp_all
  show ?case
    using 1 sextet_bounds [OF lt] by (auto simp del: of_char_mod_256)
next
  case (2 enc a b)
  have lt: "(of_char a :: nat) < 256" "(of_char b :: nat) < 256" "(0 :: nat) < 256"
    by simp_all
  show ?case
    using 2 sextet_bounds [OF lt] by auto
next
  case (3 enc a)
  have lt: "(of_char a :: nat) < 256" "(0 :: nat) < 256" "(0 :: nat) < 256"
    by simp_all
  show ?case
    using 3 sextet_bounds [OF lt] by auto
next
  case (4 enc)
  then show ?case by simp
qed

lemma bar_notin_EncodeToString_URL:
  "CHR ''|'' \<notin> set (EncodeToString URLEncoding bs)"
proof -
  have "set (EncodeToString URLEncoding bs) \<subseteq> set encodeURL \<union> {CHR ''=''}"
    using set_EncodeToString [of URLEncoding bs]
    by (simp add: URLEncoding_def length_encodeURL padding_def)
  moreover have "CHR ''|'' \<notin> set encodeURL \<union> {CHR ''=''}"
    by (simp add: encodeURL_def)
  ultimately show ?thesis
    by blast
qed

lemma isDigit_digitChar: "0 \<le> d \<Longrightarrow> d < 10 \<Longrightarrow> isDigit (digitChar d) \<and> digitVal (digitChar d) = d"
  by (simp add: isDigit_def digitChar_def digitVal_def)

lemma parseDigits_append:
  "parseDigits n (xs @ ys) = (case parseDigits n xs of None \<Rightarrow> None | Some m \<Rightarrow> parseDigits m ys)"
  by (induction xs arbitrary: n) auto

lemma parseDigits_formatDigits:
  "0 \<le> n \<Longrightarrow> parseDigits 0 (formatDigits n) = Some n"
proof (induction n rule: formatDigits.induct)
  case (1 n)
  show ?case
  proof (cases "n < 10")
    case True
    with 1 show ?thesis
      by (subst formatDigits.simps) (simp add: isDigit_digitChar)
  next
    case False
    with 1 have "parseDigits 0 (formatDigits (n div 10)) = Some (n div 10)"
      by simp
    moreover have "0 \<le> n mod 10" "n mod 10 < 10"
      by simp_all
    ultimately show ?thesis
      using False
      by (subst formatDigits.simps) (simp add: parseDigits_append isDigit_digitChar)
  qed
qed

lemma formatDigits_digits:
  "0 \<le> n \<Longrightarrow> formatDigits n \<noteq> [] \<and> (\<forall>c \<in> set (formatDigits n). isDigit c)"
proof (induction n rule: formatDigits.induct)
  case (1 n)
  show ?case
  proof (cases "n < 10")
    case True
    with 1 show ?thesis
      by (subst (1 2) formatDigits.simps) (simp add: isDigit_digitChar)
  next
    case False
    moreover have "0 \<le> n mod 10" "n mod 10 < 10"
      by simp_all
    ultimately show ?thesis
      using 1
      by (subst (1 2) formatDigits.simps) (auto simp: isDigit_digitChar)
  qed
qed

lemma isDigit_not_sign: "isDigit c \<Longrightarrow> c \<noteq> CHR ''-'' \<and> c \<noteq> CHR ''+'' \<and> c \<noteq> CHR ''|''"
  by (auto simp: isDigit_def)

lemma Atoi_formatInt:
  assumes "- 9223372036854775808 \<le> n" "n \<le> 9223372036854775807"
  shows "Atoi (formatInt n) = Some n"
proof (cases "n < 0")
  case True
  then have "formatDigits (- n) \<noteq> []" "parseDigits 0 (formatDigits (- n)) = Some (- n)"
    using formatDigits_digits [of "- n"] parseDigits_formatDigits [of "- n"] by simp_all
  with True assms show ?thesis
    by (simp add: Atoi_def formatInt_def)
next
  case False
  then have ne: "formatDigits n \<noteq> []" and dg: "\<forall>c \<in> set (formatDigits n). isDigit c"
    and pd: "parseDigits 0 (formatDigits n) = Some n"
    using formatDigits_digits [of n] parseDigits_formatDigits [of n] by simp_all
  from ne obtain c cs where cs: "formatDigits n = c # cs"
    by (cases "formatDigits n") auto
  with dg have "c \<noteq> CHR ''-''" "c \<noteq> CHR ''+''"
    using isDigit_not_sign [of c] by auto
  with False assms cs pd show ?thesis
    by (simp add: Atoi_def formatInt_def)
qed

lemma bar_notin_formatInt: "CHR ''|'' \<notin> set (formatInt n)"
proof (cases "n < 0")
  case True
  then show ?thesis
    using formatDigits_digits [of "- n"] isDigit_not_sign by (auto simp: formatInt_def)
next
  case False
  then show ?thesis
    using formatDigits_digits [of n] isDigit_not_sign by (auto simp: formatInt_def)
qed

lemma sint_times_minus_1:
  fixes e :: Duration
  assumes "- 9223372036854775808 < sint e"
  shows "sint (e * - 1) = - sint e"
proof -
  have "sint e < 9223372036854775808"
    using sint_lt [of e] by simp
  with assms have "signed_take_bit 63 (- sint e) = - sint e"
    by (simp add: signed_take_bit_int_eq_self)
  then show ?thesis
    by (simp add: sint_word_minus)
qed


subsection \<open>Times\<close>

lemmas Unix_eval = Unix_def int64_def unixToInternal_def

lemma Unix_no_wrap:
  assumes "- 9223372036854775808 \<le> sec" and "sec \<le> 9223372036854775807 - 62135596800"
  shows "Unix sec 0 = sec * 1000000000"
  using assms by (simp add: Unix_eval)

lemma Unix_wrapped:
  assumes "9223372036854775807 - 62135596800 < sec" and "sec \<le> 9223372036854775807"
  shows "Unix sec 0 = (sec - 18446744073709551616) * 1000000000"
proof -
  have "int64 (sec + 0 div 1000000000) = sec"
    using assms by (simp add: int64_def)
  moreover have "int64 (sec + unixToInternal) = sec + unixToInternal - 18446744073709551616"
  proof -
    have "(sec + 62135596800 + 9223372036854775808) mod 18446744073709551616
        = sec + 62135596800 + 9223372036854775808 - 18446744073709551616"
      using assms by (intro int_mod_pos_eq [where q = 1]) simp_all
    then show ?thesis
      by (simp add: int64_def unixToInternal_def)
  qed
  ultimately show ?thesis
    by (simp add: Unix_def)
qed

lemma Atoi_range:
  assumes "Atoi ts = Some T"
  shows "- 9223372036854775808 \<le> T \<and> T \<le> 9223372036854775807"
  using assms
  by (auto simp: Atoi_def Let_def split: list.splits option.splits if_splits)

text \<open>
  For clock readings within \<open>2\<^sup>6\<^sup>3\<close> nanoseconds of the Unix epoch, the
  \<^verbatim>\<open>Time\<close> made from a 64-bit number of seconds is in the window exactly when the
  number of seconds is: a number so large that \<^verbatim>\<open>time.Unix\<close> wraps is after the
  window, and the \<^verbatim>\<open>Time\<close> made from it is before the window.
\<close>

lemma window_Unix:
  assumes T: "- 9223372036854775808 \<le> T" "T \<le> 9223372036854775807"
    and e: "- 9223372036854775808 < e" "e \<le> 9223372036854775807"
    and n1: "- 9223372036854775808 \<le> now1"
    and n2: "now2 \<le> 9223372036854775807"
  shows "(now1 - e < Unix T 0 \<and> Unix T 0 < now2 + 300000000000)
     \<longleftrightarrow> (now1 - e < T * 1000000000 \<and> T * 1000000000 < now2 + 300000000000)"
proof (cases "T \<le> 9223372036854775807 - 62135596800")
  case True
  then show ?thesis
    using T Unix_no_wrap [of T] by simp
next
  case False
  then have "Unix T 0 = (T - 18446744073709551616) * 1000000000"
    using T Unix_wrapped [of T] by simp
  then show ?thesis
    using False T e n1 n2 by auto
qed

section \<open>Signatures\<close>

lemma checkHmac_EncodeToString:
  "checkHmac input (EncodeToString URLEncoding mac) = (DecodeString URLEncoding input = Some mac)"
  by (simp add: checkHmac_def DecodeString_EncodeToString_URL hmacEqual_def split: option.splits)

lemma checkSignature_eq:
  "checkSignature signature (key # rest) =
     Ok (DecodeString URLEncoding signature = Some (hmacSum sha256_New key (concat rest))
         \<or> DecodeString URLEncoding signature = Some (hmacSum sha1_New key (concat rest)))"
  by (simp add: checkSignature_def cookieSignature_def checkHmac_EncodeToString)

lemma sint_Minute_5: "sint (Minute * 5) = 300000000000"
  by (simp add: Minute_def)

text \<open>What \<^verbatim>\<open>Validate\<close> returns for a cookie value of three parts.\<close>

lemma Validate_three_parts:
  assumes "Split (Value cookie) CHR ''|'' = [v, ts, sig]"
  shows "Validate cookie seed expiration now1 now2 =
     (if DecodeString URLEncoding sig = Some (hmacSum sha256_New seed (Name cookie @ v @ ts))
         \<or> DecodeString URLEncoding sig = Some (hmacSum sha1_New seed (Name cookie @ v @ ts))
      then (case Atoi ts of
              None \<Rightarrow> Ok (None, zeroTime, False)
            | Some T \<Rightarrow>
                (if now1 + sint (expiration * - 1) < Unix T 0
                    \<and> Unix T 0 < now2 + 300000000000
                 then (case DecodeString URLEncoding v of
                         Some rawValue \<Rightarrow> Ok (Some rawValue, Unix T 0, True)
                       | None \<Rightarrow> Ok (None, Unix T 0, False))
                 else Ok (None, Unix T 0, False)))
      else Ok (None, zeroTime, False))"
  using assms
  by (simp add: Validate_def checkSignature_eq After_def Before_def Add_def
      sint_Minute_5 Let_def split: option.splits)

lemma Validate_three_parts_record:
  assumes "Split val CHR ''|'' = [v, ts, sig]"
  shows "Validate \<lparr>Name = name, Value = val\<rparr> seed expiration now1 now2 =
     (if DecodeString URLEncoding sig = Some (hmacSum sha256_New seed (name @ v @ ts))
         \<or> DecodeString URLEncoding sig = Some (hmacSum sha1_New seed (name @ v @ ts))
      then (case Atoi ts of
              None \<Rightarrow> Ok (None, zeroTime, False)
            | Some T \<Rightarrow>
                (if now1 + sint (expiration * - 1) < Unix T 0
                    \<and> Unix T 0 < now2 + 300000000000
                 then (case DecodeString URLEncoding v of
                         Some rawValue \<Rightarrow> Ok (Some rawValue, Unix T 0, True)
                       | None \<Rightarrow> Ok (None, Unix T 0, False))
                 else Ok (None, Unix T 0, False)))
      else Ok (None, zeroTime, False))"
  using Validate_three_parts [of "\<lparr>Name = name, Value = val\<rparr>" v ts sig] assms
  by simp

lemma Validate_other_parts:
  assumes "length (Split (Value cookie) CHR ''|'') \<noteq> 3"
  shows "Validate cookie seed expiration now1 now2 = Ok (None, zeroTime, False)"
  using assms by (simp add: Validate_def)

lemma length_3_cases:
  assumes "length xs = 3"
  obtains a b c where "xs = [a, b, c]"
  using assms by (cases xs; simp; cases "tl xs"; simp; cases "tl (tl xs)"; simp) 


section \<open>The MACs of the example cookie\<close>

lemma hmacSum_sha256_cookie:
  "hmacSum sha256_New ''secret-seed'' ''_oauth2_proxycGF5bG9hZA==1600000000'' = macSHA256"
  by code_simp

lemma hmacSum_sha1_cookie:
  "hmacSum sha1_New ''secret-seed'' ''_oauth2_proxycGF5bG9hZA==1600000000'' = macSHA1"
  by code_simp

lemma hmacSum_sha256_bad_value:
  "hmacSum sha256_New ''secret-seed'' ''_oauth2_proxy!1600000000'' = macBadValue"
  by code_simp

lemma EncodeToString_macs:
  "EncodeToString URLEncoding macSHA256 = ''yCJbqKm7gtvZqNNzma0n-Yj7z6uhjFIhB45tp-I2jyM=''"
  "EncodeToString URLEncoding macSHA1 = ''v2Gz0zXidcl2gQBE9sG90rKq0f0=''"
  "EncodeToString URLEncoding macBadValue = ''vp5HJkXOKz-NCw7MA9s_Q-GOXUI3eNfP6CptqWwLcS0=''"
  "EncodeToString URLEncoding ''payload'' = ''cGF5bG9hZA==''"
  by code_simp+

lemma DecodeString_macs:
  "DecodeString URLEncoding ''yCJbqKm7gtvZqNNzma0n-Yj7z6uhjFIhB45tp-I2jyM='' = Some macSHA256"
  "DecodeString URLEncoding ''v2Gz0zXidcl2gQBE9sG90rKq0f0='' = Some macSHA1"
  "DecodeString URLEncoding ''vp5HJkXOKz-NCw7MA9s_Q-GOXUI3eNfP6CptqWwLcS0='' = Some macBadValue"
  "DecodeString URLEncoding ''cGF5bG9hZA=='' = Some ''payload''"
  using DecodeString_EncodeToString_URL [of macSHA256] DecodeString_EncodeToString_URL [of macSHA1]
    DecodeString_EncodeToString_URL [of macBadValue] DecodeString_EncodeToString_URL [of "''payload''"]
  by (simp_all only: EncodeToString_macs)

lemma DecodeString_others:
  "DecodeString URLEncoding ''!'' = None"
  "DecodeString URLEncoding ''szToGbd8j_LaCsBHKT3fZQ==''
     = Some [CHR 0xB3, CHR 0x34, CHR 0xE8, CHR 0x19, CHR 0xB7, CHR 0x7C, CHR 0x8F, CHR 0xF2,
             CHR 0xDA, CHR 0x0A, CHR 0xC0, CHR 0x47, CHR 0x29, CHR 0x3D, CHR 0xDF, CHR 0x65]"
  by code_simp+

lemma macs_differ:
  "macSHA1 \<noteq> macSHA256"
  "[CHR 0xB3, CHR 0x34, CHR 0xE8, CHR 0x19, CHR 0xB7, CHR 0x7C, CHR 0x8F, CHR 0xF2,
    CHR 0xDA, CHR 0x0A, CHR 0xC0, CHR 0x47, CHR 0x29, CHR 0x3D, CHR 0xDF, CHR 0x65] \<noteq> macSHA256"
  "[CHR 0xB3, CHR 0x34, CHR 0xE8, CHR 0x19, CHR 0xB7, CHR 0x7C, CHR 0x8F, CHR 0xF2,
    CHR 0xDA, CHR 0x0A, CHR 0xC0, CHR 0x47, CHR 0x29, CHR 0x3D, CHR 0xDF, CHR 0x65] \<noteq> macSHA1"
  by (simp_all add: macSHA1_def macSHA256_def)

lemma Split_cookies:
  "Split ''cGF5bG9hZA==|1600000000|yCJbqKm7gtvZqNNzma0n-Yj7z6uhjFIhB45tp-I2jyM='' CHR ''|''
     = [''cGF5bG9hZA=='', ''1600000000'', ''yCJbqKm7gtvZqNNzma0n-Yj7z6uhjFIhB45tp-I2jyM='']"
  "Split ''!|1600000000|vp5HJkXOKz-NCw7MA9s_Q-GOXUI3eNfP6CptqWwLcS0='' CHR ''|''
     = [''!'', ''1600000000'', ''vp5HJkXOKz-NCw7MA9s_Q-GOXUI3eNfP6CptqWwLcS0='']"
  by code_simp+

lemma Atoi_1600000000: "Atoi ''1600000000'' = Some 1600000000"
  by code_simp

lemma formatInt_1600000000: "formatInt 1600000000 = ''1600000000''"
  by code_simp

lemma hmacSum_sha256_bad_time:
  "hmacSum sha256_New ''secret-seed'' ''_oauth2_proxycGF5bG9hZA==16e8'' = macBadTime"
  by code_simp

lemma DecodeString_macBadTime:
  "DecodeString URLEncoding ''LGLmXYQ9KdEmbguGkZkQo3mZDfBFs2jABCB_hH2NOH8='' = Some macBadTime"
  by code_simp

lemma Split_rejected_cookies:
  "Split ''cGF5bG9hZA==|1600000000|szToGbd8j_LaCsBHKT3fZQ=='' CHR ''|''
     = [''cGF5bG9hZA=='', ''1600000000'', ''szToGbd8j_LaCsBHKT3fZQ=='']"
  "Split ''cGF5bG9hZA==|16e8|LGLmXYQ9KdEmbguGkZkQo3mZDfBFs2jABCB_hH2NOH8='' CHR ''|''
     = [''cGF5bG9hZA=='', ''16e8'', ''LGLmXYQ9KdEmbguGkZkQo3mZDfBFs2jABCB_hH2NOH8='']"
  by code_simp+

lemma Atoi_16e8: "Atoi ''16e8'' = None"
  by code_simp

lemma SignedValue_cookie:
  "SignedValue ''secret-seed'' ''_oauth2_proxy'' ''payload'' (Unix 1600000000 0)
     = Ok ''cGF5bG9hZA==|1600000000|yCJbqKm7gtvZqNNzma0n-Yj7z6uhjFIhB45tp-I2jyM=''"
  by (simp add: SignedValue_def cookieSignature_def Time_Unix_def Unix_eval EncodeToString_macs
      formatInt_1600000000 hmacSum_sha256_cookie del: EncodeToString.simps)

lemma Validate_cookie:
  "Validate \<lparr>Name = ''_oauth2_proxy'',
      Value = ''cGF5bG9hZA==|1600000000|yCJbqKm7gtvZqNNzma0n-Yj7z6uhjFIhB45tp-I2jyM=''\<rparr>
     ''secret-seed'' expiration now1 now2 =
   (if now1 + sint (expiration * - 1) < 1600000000000000000
       \<and> 1600000000000000000 < now2 + 300000000000
    then Ok (Some ''payload'', Unix 1600000000 0, True)
    else Ok (None, Unix 1600000000 0, False))"
  by (simp add: Validate_three_parts_record [OF Split_cookies(1)] DecodeString_macs
      hmacSum_sha256_cookie Atoi_1600000000 Unix_eval)

lemma Validate_bad_value_cookie:
  "Validate \<lparr>Name = ''_oauth2_proxy'',
      Value = ''!|1600000000|vp5HJkXOKz-NCw7MA9s_Q-GOXUI3eNfP6CptqWwLcS0=''\<rparr>
     ''secret-seed'' expiration now1 now2 = Ok (None, Unix 1600000000 0, False)"
  by (simp add: Validate_three_parts_record [OF Split_cookies(2)] DecodeString_macs
      DecodeString_others hmacSum_sha256_bad_value Atoi_1600000000 Unix_eval)


section \<open>Signature verification\<close>

lemma DecodeString_other_spelling:
  "DecodeString URLEncoding ''yCJbqKm7gtvZqNNzma0n-Yj7z6uhjFIhB45tp-I2jyN='' = Some macSHA256"
  by code_simp

text \<open>
  Claim C8. \<^verbatim>\<open>checkSignature\<close> accepts a signature exactly when it decodes (as padded
  URL-safe base64) to the HMAC-SHA256 of the message under the seed or to the HMAC-SHA1
  of the same message under the same seed. The code tries SHA-256 first and SHA-1 only
  when that fails; a signature that is neither is rejected. (The comparison is one of
  decoded MACs: another spelling of the same bytes is accepted too.)
\<close>

theorem checkSignature_SHA256_or_SHA1:
  "checkSignature signature [seed, name, v, ts] =
     Ok (DecodeString URLEncoding signature = Some (hmacSum sha256_New seed (name @ v @ ts))
         \<or> DecodeString URLEncoding signature = Some (hmacSum sha1_New seed (name @ v @ ts)))"
  by (simp add: checkSignature_eq)

text \<open>
  For the example cookie: its signature with SHA-256 is accepted, the signature of the
  same message with SHA-1 is accepted, the MAC of the same message with MD5 is
  rejected, and the SHA-256 signature with other unused bits in its last character is
  accepted.
\<close>

theorem checkSignature_SHA256_or_SHA1_witness:
  "checkSignature ''yCJbqKm7gtvZqNNzma0n-Yj7z6uhjFIhB45tp-I2jyM=''
     [''secret-seed'', ''_oauth2_proxy'', ''cGF5bG9hZA=='', ''1600000000''] = Ok True \<and>
   checkSignature ''v2Gz0zXidcl2gQBE9sG90rKq0f0=''
     [''secret-seed'', ''_oauth2_proxy'', ''cGF5bG9hZA=='', ''1600000000''] = Ok True \<and>
   checkSignature ''szToGbd8j_LaCsBHKT3fZQ==''
     [''secret-seed'', ''_oauth2_proxy'', ''cGF5bG9hZA=='', ''1600000000''] = Ok False \<and>
   checkSignature ''yCJbqKm7gtvZqNNzma0n-Yj7z6uhjFIhB45tp-I2jyN=''
     [''secret-seed'', ''_oauth2_proxy'', ''cGF5bG9hZA=='', ''1600000000''] = Ok True"
  using
    checkSignature_SHA256_or_SHA1 [of "''yCJbqKm7gtvZqNNzma0n-Yj7z6uhjFIhB45tp-I2jyM=''"
      "''secret-seed''" "''_oauth2_proxy''" "''cGF5bG9hZA==''" "''1600000000''"]
    checkSignature_SHA256_or_SHA1 [of "''v2Gz0zXidcl2gQBE9sG90rKq0f0=''"
      "''secret-seed''" "''_oauth2_proxy''" "''cGF5bG9hZA==''" "''1600000000''"]
    checkSignature_SHA256_or_SHA1 [of "''szToGbd8j_LaCsBHKT3fZQ==''"
      "''secret-seed''" "''_oauth2_proxy''" "''cGF5bG9hZA==''" "''1600000000''"]
    checkSignature_SHA256_or_SHA1 [of "''yCJbqKm7gtvZqNNzma0n-Yj7z6uhjFIhB45tp-I2jyN=''"
      "''secret-seed''" "''_oauth2_proxy''" "''cGF5bG9hZA==''" "''1600000000''"]
  by (simp add: DecodeString_macs DecodeString_others DecodeString_other_spelling
      hmacSum_sha256_cookie hmacSum_sha1_cookie macs_differ)

section \<open>The validity window\<close>

text \<open>
  Claim C1, amended. For a cookie value of three parts whose signature verifies and
  whose timestamp field parses as the integer \<open>T\<close>, for an expiration other than the
  least 64-bit duration, and for clock readings within \<open>2\<^sup>6\<^sup>3\<close> nanoseconds of the
  Unix epoch, \<^verbatim>\<open>Validate\<close> accepts exactly when \<open>T\<close> seconds lie strictly between the
  first clock reading less the expiration and the second clock reading plus five
  minutes (both bounds are excluded), and the value field decodes. The time returned
  is \<^verbatim>\<open>time.Unix(T, 0)\<close>.
\<close>

theorem Validate_accepts_in_open_window:
  assumes parts: "Split (Value cookie) CHR ''|'' = [v, ts, sig]"
    and sig: "checkSignature sig [seed, Name cookie, v, ts] = Ok True"
    and ts: "Atoi ts = Some T"
    and exp: "- 9223372036854775808 < sint expiration"
    and clock1: "- 9223372036854775808 \<le> now1"
    and clock2: "now2 \<le> 9223372036854775807"
  shows "\<exists>val. Validate cookie seed expiration now1 now2 =
           Ok (val, Unix T 0,
               now1 - sint expiration < T * 1000000000
               \<and> T * 1000000000 < now2 + sint (Minute * 5)
               \<and> DecodeString URLEncoding v \<noteq> None)"
proof -
  from sig have accepted:
    "DecodeString URLEncoding sig = Some (hmacSum sha256_New seed (Name cookie @ v @ ts))
      \<or> DecodeString URLEncoding sig = Some (hmacSum sha1_New seed (Name cookie @ v @ ts))"
    by (simp add: checkSignature_eq)
  have "sint expiration \<le> 9223372036854775807"
    using sint_lt [of expiration] by simp
  with Atoi_range [OF ts] exp clock1 clock2
  have window: "(now1 - sint expiration < Unix T 0 \<and> Unix T 0 < now2 + 300000000000)
      \<longleftrightarrow> (now1 - sint expiration < T * 1000000000 \<and> T * 1000000000 < now2 + 300000000000)"
    by (intro window_Unix) simp_all
  have neg: "now1 + sint (expiration * - 1) = now1 - sint expiration"
    using sint_times_minus_1 [OF exp] by simp
  show ?thesis
    unfolding Validate_three_parts [OF parts] neg sint_Minute_5
    using accepted ts window
    by (cases "DecodeString URLEncoding v") auto
qed

theorem Validate_accepts_in_open_window_witness:
  "Split (Value \<lparr>Name = ''_oauth2_proxy'',
      Value = ''cGF5bG9hZA==|1600000000|yCJbqKm7gtvZqNNzma0n-Yj7z6uhjFIhB45tp-I2jyM=''\<rparr>) CHR ''|''
     = [''cGF5bG9hZA=='', ''1600000000'', ''yCJbqKm7gtvZqNNzma0n-Yj7z6uhjFIhB45tp-I2jyM=''] \<and>
   checkSignature ''yCJbqKm7gtvZqNNzma0n-Yj7z6uhjFIhB45tp-I2jyM=''
     [''secret-seed'', Name \<lparr>Name = ''_oauth2_proxy'',
      Value = ''cGF5bG9hZA==|1600000000|yCJbqKm7gtvZqNNzma0n-Yj7z6uhjFIhB45tp-I2jyM=''\<rparr>, ''cGF5bG9hZA=='', ''1600000000''] = Ok True \<and>
   Atoi ''1600000000'' = Some 1600000000 \<and>
   - 9223372036854775808 < sint (3600000000000 :: Duration) \<and>
   - 9223372036854775808 \<le> Unix 1599999640 0 \<and>
   Unix 1600003601 0 \<le> 9223372036854775807 \<and>
   (\<exists>val. Validate \<lparr>Name = ''_oauth2_proxy'',
      Value = ''cGF5bG9hZA==|1600000000|yCJbqKm7gtvZqNNzma0n-Yj7z6uhjFIhB45tp-I2jyM=''\<rparr> ''secret-seed'' 3600000000000 (Unix 1599999760 0) (Unix 1599999760 0)
      = Ok (val, Unix 1600000000 0, True)) \<and>
   (\<exists>val. Validate \<lparr>Name = ''_oauth2_proxy'',
      Value = ''cGF5bG9hZA==|1600000000|yCJbqKm7gtvZqNNzma0n-Yj7z6uhjFIhB45tp-I2jyM=''\<rparr> ''secret-seed'' 3600000000000 (Unix 1600003599 0) (Unix 1600003599 0)
      = Ok (val, Unix 1600000000 0, True)) \<and>
   (\<exists>val. Validate \<lparr>Name = ''_oauth2_proxy'',
      Value = ''cGF5bG9hZA==|1600000000|yCJbqKm7gtvZqNNzma0n-Yj7z6uhjFIhB45tp-I2jyM=''\<rparr> ''secret-seed'' 3600000000000 (Unix 1600003601 0) (Unix 1600003601 0)
      = Ok (val, Unix 1600000000 0, False)) \<and>
   (\<exists>val. Validate \<lparr>Name = ''_oauth2_proxy'',
      Value = ''cGF5bG9hZA==|1600000000|yCJbqKm7gtvZqNNzma0n-Yj7z6uhjFIhB45tp-I2jyM=''\<rparr> ''secret-seed'' 3600000000000 (Unix 1599999640 0) (Unix 1599999640 0)
      = Ok (val, Unix 1600000000 0, False))"
proof -
  let ?c = "\<lparr>Name = ''_oauth2_proxy'',
      Value = ''cGF5bG9hZA==|1600000000|yCJbqKm7gtvZqNNzma0n-Yj7z6uhjFIhB45tp-I2jyM=''\<rparr>"
  have parts: "Split (Value ?c) CHR ''|''
      = [''cGF5bG9hZA=='', ''1600000000'', ''yCJbqKm7gtvZqNNzma0n-Yj7z6uhjFIhB45tp-I2jyM='']"
    by (simp add: Split_cookies)
  have sig: "checkSignature ''yCJbqKm7gtvZqNNzma0n-Yj7z6uhjFIhB45tp-I2jyM=''
      [''secret-seed'', Name ?c, ''cGF5bG9hZA=='', ''1600000000''] = Ok True"
    by (simp add: checkSignature_eq DecodeString_macs hmacSum_sha256_cookie)
  have exp: "- 9223372036854775808 < sint (3600000000000 :: Duration)"
    by simp
  have lo: "- 9223372036854775808 \<le> Unix 1599999760 0"
    "- 9223372036854775808 \<le> Unix 1600003599 0"
    "- 9223372036854775808 \<le> Unix 1600003601 0"
    "- 9223372036854775808 \<le> Unix 1599999640 0"
    by (simp_all add: Unix_eval)
  have hi: "Unix 1599999760 0 \<le> 9223372036854775807"
    "Unix 1600003599 0 \<le> 9223372036854775807"
    "Unix 1600003601 0 \<le> 9223372036854775807"
    "Unix 1599999640 0 \<le> 9223372036854775807"
    by (simp_all add: Unix_eval)
  note w = Validate_accepts_in_open_window [OF parts sig Atoi_1600000000 exp]
  show ?thesis
    using parts sig exp lo hi w [OF lo(1) hi(1)] w [OF lo(2) hi(2)] w [OF lo(3) hi(3)]
      w [OF lo(4) hi(4)]
    by (simp add: Atoi_1600000000 DecodeString_macs Unix_eval sint_Minute_5)
qed

text \<open>
  Claim C1 as stated fails. The cookie signed at \<open>T = 1600000000\<close> with an expiration
  of one hour is rejected at \<open>now = T + expiration\<close>, where the claim has it validate;
  it is rejected when \<open>T\<close> is exactly \<open>now\<close> plus five minutes, the bound the claim
  includes; a cookie whose signature verifies and whose timestamp is \<open>now\<close> is
  rejected when its value field does not decode; and with the least 64-bit duration
  as expiration, whose negation wraps to itself, the cookie is accepted at \<open>now = T\<close>
  although \<open>now - expiration\<close> is later than \<open>T\<close>.
\<close>

theorem Validate_window_counterexample:
  "SignedValue ''secret-seed'' ''_oauth2_proxy'' ''payload'' (Unix 1600000000 0)
     = Ok (Value \<lparr>Name = ''_oauth2_proxy'',
      Value = ''cGF5bG9hZA==|1600000000|yCJbqKm7gtvZqNNzma0n-Yj7z6uhjFIhB45tp-I2jyM=''\<rparr>) \<and>
   Validate \<lparr>Name = ''_oauth2_proxy'',
      Value = ''cGF5bG9hZA==|1600000000|yCJbqKm7gtvZqNNzma0n-Yj7z6uhjFIhB45tp-I2jyM=''\<rparr> ''secret-seed'' 3600000000000 (Unix 1600003600 0) (Unix 1600003600 0)
     = Ok (None, Unix 1600000000 0, False) \<and>
   Validate \<lparr>Name = ''_oauth2_proxy'',
      Value = ''cGF5bG9hZA==|1600000000|yCJbqKm7gtvZqNNzma0n-Yj7z6uhjFIhB45tp-I2jyM=''\<rparr> ''secret-seed'' 3600000000000 (Unix 1599999700 0) (Unix 1599999700 0)
     = Ok (None, Unix 1600000000 0, False) \<and>
   checkSignature ''vp5HJkXOKz-NCw7MA9s_Q-GOXUI3eNfP6CptqWwLcS0=''
     [''secret-seed'', ''_oauth2_proxy'', ''!'', ''1600000000''] = Ok True \<and>
   Validate \<lparr>Name = ''_oauth2_proxy'',
      Value = ''!|1600000000|vp5HJkXOKz-NCw7MA9s_Q-GOXUI3eNfP6CptqWwLcS0=''\<rparr> ''secret-seed'' 3600000000000 (Unix 1600000000 0) (Unix 1600000000 0)
     = Ok (None, Unix 1600000000 0, False) \<and>
   Validate \<lparr>Name = ''_oauth2_proxy'',
      Value = ''cGF5bG9hZA==|1600000000|yCJbqKm7gtvZqNNzma0n-Yj7z6uhjFIhB45tp-I2jyM=''\<rparr> ''secret-seed'' (- 9223372036854775808) (Unix 1600000000 0) (Unix 1600000000 0)
     = Ok (Some ''payload'', Unix 1600000000 0, True) \<and>
   \<not> Unix 1600000000 0 - sint (- 9223372036854775808 :: Duration) < Unix 1600000000 0"
  using SignedValue_cookie
  by (simp add: Validate_cookie Validate_bad_value_cookie checkSignature_eq
      DecodeString_macs hmacSum_sha256_bad_value Unix_eval)

section \<open>Rejected cookies\<close>

text \<open>
  Claim C4, amended. \<^verbatim>\<open>Validate\<close> never panics and never returns an error, and the
  check of the signature never panics either. A value that does not split into
  exactly three parts, a signature that does not verify and a timestamp that does
  not parse each give \<^verbatim>\<open>nil\<close>, the zero time and \<^verbatim>\<open>false\<close>. When the signature verifies
  and the timestamp parses, a timestamp outside the window and a value field that
  does not decode each give \<^verbatim>\<open>nil\<close>, \<^verbatim>\<open>false\<close> and the embedded time, not the zero
  time. Only a cookie that passes every check is accepted.
\<close>

theorem Validate_never_panics:
  "(\<exists>val t ok. Validate cookie seed expiration now1 now2 = Ok (val, t, ok))
   \<and> (length (Split (Value cookie) CHR ''|'') \<noteq> 3
        \<longrightarrow> Validate cookie seed expiration now1 now2 = Ok (None, zeroTime, False))
   \<and> (\<forall>v ts sig. Split (Value cookie) CHR ''|'' = [v, ts, sig] \<longrightarrow>
          (\<exists>b. checkSignature sig [seed, Name cookie, v, ts] = Ok b)
        \<and> (checkSignature sig [seed, Name cookie, v, ts] = Ok False
             \<longrightarrow> Validate cookie seed expiration now1 now2 = Ok (None, zeroTime, False))
        \<and> (checkSignature sig [seed, Name cookie, v, ts] = Ok True \<and> Atoi ts = None
             \<longrightarrow> Validate cookie seed expiration now1 now2 = Ok (None, zeroTime, False))
        \<and> (\<forall>T. checkSignature sig [seed, Name cookie, v, ts] = Ok True \<and> Atoi ts = Some T
                 \<and> \<not> (After (Unix T 0) (Add now1 (expiration * - 1))
                         \<and> Before (Unix T 0) (Add now2 (Minute * 5)))
             \<longrightarrow> Validate cookie seed expiration now1 now2 = Ok (None, Unix T 0, False))
        \<and> (\<forall>T. checkSignature sig [seed, Name cookie, v, ts] = Ok True \<and> Atoi ts = Some T
                 \<and> After (Unix T 0) (Add now1 (expiration * - 1))
                 \<and> Before (Unix T 0) (Add now2 (Minute * 5))
                 \<and> DecodeString URLEncoding v = None
             \<longrightarrow> Validate cookie seed expiration now1 now2 = Ok (None, Unix T 0, False))
        \<and> (\<forall>T raw. checkSignature sig [seed, Name cookie, v, ts] = Ok True \<and> Atoi ts = Some T
                 \<and> After (Unix T 0) (Add now1 (expiration * - 1))
                 \<and> Before (Unix T 0) (Add now2 (Minute * 5))
                 \<and> DecodeString URLEncoding v = Some raw
             \<longrightarrow> Validate cookie seed expiration now1 now2 = Ok (Some raw, Unix T 0, True)))"
proof (cases "length (Split (Value cookie) CHR ''|'') = 3")
  case False
  then show ?thesis
    by (auto simp: Validate_other_parts)
next
  case True
  then obtain v ts sig where parts: "Split (Value cookie) CHR ''|'' = [v, ts, sig]"
    by (rule length_3_cases)
  show ?thesis
    by (auto simp: Validate_three_parts [OF parts] parts checkSignature_eq After_def Before_def
        Add_def sint_Minute_5 split: option.splits)
qed

text \<open>
  Every check at a concrete cookie: values of one, two and four parts; a forged
  signature; a timestamp that is not an integer, under a signature that verifies; the
  example cookie two hours after it was signed, with an expiration of one hour; a
  value field that does not decode, under a signature that verifies; and the example
  cookie at the second it was signed, which is accepted.
\<close>

theorem Validate_never_panics_witness:
  "length (Split (Value \<lparr>Name = ''_oauth2_proxy'', Value = []\<rparr>) CHR ''|'') \<noteq> 3 \<and>
   Validate \<lparr>Name = ''_oauth2_proxy'', Value = []\<rparr> ''secret-seed'' 3600000000000
     (Unix 1600000000 0) (Unix 1600000000 0) = Ok (None, zeroTime, False) \<and>
   length (Split (Value \<lparr>Name = ''_oauth2_proxy'', Value = ''cGF5bG9hZA==|1600000000''\<rparr>)
     CHR ''|'') \<noteq> 3 \<and>
   Validate \<lparr>Name = ''_oauth2_proxy'', Value = ''cGF5bG9hZA==|1600000000''\<rparr> ''secret-seed''
     3600000000000 (Unix 1600000000 0) (Unix 1600000000 0) = Ok (None, zeroTime, False) \<and>
   length (Split (Value \<lparr>Name = ''_oauth2_proxy'', Value = ''a|1600000000|b|c''\<rparr>)
     CHR ''|'') \<noteq> 3 \<and>
   Validate \<lparr>Name = ''_oauth2_proxy'', Value = ''a|1600000000|b|c''\<rparr> ''secret-seed''
     3600000000000 (Unix 1600000000 0) (Unix 1600000000 0) = Ok (None, zeroTime, False) \<and>
   Split (Value \<lparr>Name = ''_oauth2_proxy'',
      Value = ''cGF5bG9hZA==|1600000000|szToGbd8j_LaCsBHKT3fZQ==''\<rparr>) CHR ''|''
     = [''cGF5bG9hZA=='', ''1600000000'', ''szToGbd8j_LaCsBHKT3fZQ==''] \<and>
   checkSignature ''szToGbd8j_LaCsBHKT3fZQ==''
     [''secret-seed'', Name \<lparr>Name = ''_oauth2_proxy'',
      Value = ''cGF5bG9hZA==|1600000000|szToGbd8j_LaCsBHKT3fZQ==''\<rparr>, ''cGF5bG9hZA=='', ''1600000000''] = Ok False \<and>
   Validate \<lparr>Name = ''_oauth2_proxy'',
      Value = ''cGF5bG9hZA==|1600000000|szToGbd8j_LaCsBHKT3fZQ==''\<rparr> ''secret-seed'' 3600000000000 (Unix 1600000000 0) (Unix 1600000000 0)
     = Ok (None, zeroTime, False) \<and>
   Split (Value \<lparr>Name = ''_oauth2_proxy'',
      Value = ''cGF5bG9hZA==|16e8|LGLmXYQ9KdEmbguGkZkQo3mZDfBFs2jABCB_hH2NOH8=''\<rparr>) CHR ''|''
     = [''cGF5bG9hZA=='', ''16e8'', ''LGLmXYQ9KdEmbguGkZkQo3mZDfBFs2jABCB_hH2NOH8=''] \<and>
   checkSignature ''LGLmXYQ9KdEmbguGkZkQo3mZDfBFs2jABCB_hH2NOH8=''
     [''secret-seed'', Name \<lparr>Name = ''_oauth2_proxy'',
      Value = ''cGF5bG9hZA==|16e8|LGLmXYQ9KdEmbguGkZkQo3mZDfBFs2jABCB_hH2NOH8=''\<rparr>, ''cGF5bG9hZA=='', ''16e8''] = Ok True \<and>
   Atoi ''16e8'' = None \<and>
   Validate \<lparr>Name = ''_oauth2_proxy'',
      Value = ''cGF5bG9hZA==|16e8|LGLmXYQ9KdEmbguGkZkQo3mZDfBFs2jABCB_hH2NOH8=''\<rparr> ''secret-seed'' 3600000000000 (Unix 1600000000 0) (Unix 1600000000 0)
     = Ok (None, zeroTime, False) \<and>
   Split (Value \<lparr>Name = ''_oauth2_proxy'',
      Value = ''cGF5bG9hZA==|1600000000|yCJbqKm7gtvZqNNzma0n-Yj7z6uhjFIhB45tp-I2jyM=''\<rparr>) CHR ''|''
     = [''cGF5bG9hZA=='', ''1600000000'', ''yCJbqKm7gtvZqNNzma0n-Yj7z6uhjFIhB45tp-I2jyM=''] \<and>
   checkSignature ''yCJbqKm7gtvZqNNzma0n-Yj7z6uhjFIhB45tp-I2jyM=''
     [''secret-seed'', Name \<lparr>Name = ''_oauth2_proxy'',
      Value = ''cGF5bG9hZA==|1600000000|yCJbqKm7gtvZqNNzma0n-Yj7z6uhjFIhB45tp-I2jyM=''\<rparr>, ''cGF5bG9hZA=='', ''1600000000''] = Ok True \<and>
   Atoi ''1600000000'' = Some 1600000000 \<and>
   \<not> (After (Unix 1600000000 0) (Add (Unix 1600007200 0) (3600000000000 * - 1))
        \<and> Before (Unix 1600000000 0) (Add (Unix 1600007200 0) (Minute * 5))) \<and>
   Validate \<lparr>Name = ''_oauth2_proxy'',
      Value = ''cGF5bG9hZA==|1600000000|yCJbqKm7gtvZqNNzma0n-Yj7z6uhjFIhB45tp-I2jyM=''\<rparr> ''secret-seed'' 3600000000000 (Unix 1600007200 0) (Unix 1600007200 0)
     = Ok (None, Unix 1600000000 0, False) \<and>
   Split (Value \<lparr>Name = ''_oauth2_proxy'',
      Value = ''!|1600000000|vp5HJkXOKz-NCw7MA9s_Q-GOXUI3eNfP6CptqWwLcS0=''\<rparr>) CHR ''|''
     = [''!'', ''1600000000'', ''vp5HJkXOKz-NCw7MA9s_Q-GOXUI3eNfP6CptqWwLcS0=''] \<and>
   checkSignature ''vp5HJkXOKz-NCw7MA9s_Q-GOXUI3eNfP6CptqWwLcS0=''
     [''secret-seed'', Name \<lparr>Name = ''_oauth2_proxy'',
      Value = ''!|1600000000|vp5HJkXOKz-NCw7MA9s_Q-GOXUI3eNfP6CptqWwLcS0=''\<rparr>, ''!'', ''1600000000''] = Ok True \<and>
   After (Unix 1600000000 0) (Add (Unix 1600000000 0) (3600000000000 * - 1)) \<and>
   Before (Unix 1600000000 0) (Add (Unix 1600000000 0) (Minute * 5)) \<and>
   DecodeString URLEncoding ''!'' = None \<and>
   Validate \<lparr>Name = ''_oauth2_proxy'',
      Value = ''!|1600000000|vp5HJkXOKz-NCw7MA9s_Q-GOXUI3eNfP6CptqWwLcS0=''\<rparr> ''secret-seed'' 3600000000000 (Unix 1600000000 0) (Unix 1600000000 0)
     = Ok (None, Unix 1600000000 0, False) \<and>
   DecodeString URLEncoding ''cGF5bG9hZA=='' = Some ''payload'' \<and>
   Validate \<lparr>Name = ''_oauth2_proxy'',
      Value = ''cGF5bG9hZA==|1600000000|yCJbqKm7gtvZqNNzma0n-Yj7z6uhjFIhB45tp-I2jyM=''\<rparr> ''secret-seed'' 3600000000000 (Unix 1600000000 0) (Unix 1600000000 0)
     = Ok (Some ''payload'', Unix 1600000000 0, True)"
proof -
  let ?forged = "\<lparr>Name = ''_oauth2_proxy'',
      Value = ''cGF5bG9hZA==|1600000000|szToGbd8j_LaCsBHKT3fZQ==''\<rparr>"
  let ?badtime = "\<lparr>Name = ''_oauth2_proxy'',
      Value = ''cGF5bG9hZA==|16e8|LGLmXYQ9KdEmbguGkZkQo3mZDfBFs2jABCB_hH2NOH8=''\<rparr>"
  let ?cookie = "\<lparr>Name = ''_oauth2_proxy'',
      Value = ''cGF5bG9hZA==|1600000000|yCJbqKm7gtvZqNNzma0n-Yj7z6uhjFIhB45tp-I2jyM=''\<rparr>"
  let ?badvalue = "\<lparr>Name = ''_oauth2_proxy'',
      Value = ''!|1600000000|vp5HJkXOKz-NCw7MA9s_Q-GOXUI3eNfP6CptqWwLcS0=''\<rparr>"
  let ?now = "Unix 1600000000 0"
  let ?later = "Unix 1600007200 0"
  let ?hour = "3600000000000 :: Duration"
  have short:
    "length (Split (Value \<lparr>Name = ''_oauth2_proxy'', Value = []\<rparr>) CHR ''|'') \<noteq> 3"
    "length (Split (Value \<lparr>Name = ''_oauth2_proxy'', Value = ''cGF5bG9hZA==|1600000000''\<rparr>)
       CHR ''|'') \<noteq> 3"
    "length (Split (Value \<lparr>Name = ''_oauth2_proxy'', Value = ''a|1600000000|b|c''\<rparr>)
       CHR ''|'') \<noteq> 3"
    by simp_all
  have parts:
    "Split (Value ?forged) CHR ''|''
       = [''cGF5bG9hZA=='', ''1600000000'', ''szToGbd8j_LaCsBHKT3fZQ=='']"
    "Split (Value ?badtime) CHR ''|''
       = [''cGF5bG9hZA=='', ''16e8'', ''LGLmXYQ9KdEmbguGkZkQo3mZDfBFs2jABCB_hH2NOH8='']"
    "Split (Value ?cookie) CHR ''|''
       = [''cGF5bG9hZA=='', ''1600000000'', ''yCJbqKm7gtvZqNNzma0n-Yj7z6uhjFIhB45tp-I2jyM='']"
    "Split (Value ?badvalue) CHR ''|''
       = [''!'', ''1600000000'', ''vp5HJkXOKz-NCw7MA9s_Q-GOXUI3eNfP6CptqWwLcS0='']"
    by (simp_all add: Split_cookies Split_rejected_cookies)
  have sigs:
    "checkSignature ''szToGbd8j_LaCsBHKT3fZQ==''
       [''secret-seed'', Name ?forged, ''cGF5bG9hZA=='', ''1600000000''] = Ok False"
    "checkSignature ''LGLmXYQ9KdEmbguGkZkQo3mZDfBFs2jABCB_hH2NOH8=''
       [''secret-seed'', Name ?badtime, ''cGF5bG9hZA=='', ''16e8''] = Ok True"
    "checkSignature ''yCJbqKm7gtvZqNNzma0n-Yj7z6uhjFIhB45tp-I2jyM=''
       [''secret-seed'', Name ?cookie, ''cGF5bG9hZA=='', ''1600000000''] = Ok True"
    "checkSignature ''vp5HJkXOKz-NCw7MA9s_Q-GOXUI3eNfP6CptqWwLcS0=''
       [''secret-seed'', Name ?badvalue, ''!'', ''1600000000''] = Ok True"
    by (simp_all add: checkSignature_eq DecodeString_macs DecodeString_others
        DecodeString_macBadTime hmacSum_sha256_cookie hmacSum_sha1_cookie
        hmacSum_sha256_bad_time hmacSum_sha256_bad_value macs_differ)
  have late: "\<not> (After ?now (Add ?later (?hour * - 1)) \<and> Before ?now (Add ?later (Minute * 5)))"
    by (simp add: After_def Before_def Add_def Unix_eval sint_Minute_5)
  have inside: "After ?now (Add ?now (?hour * - 1))" "Before ?now (Add ?now (Minute * 5))"
    by (simp_all add: After_def Before_def Add_def Unix_eval sint_Minute_5)
  have r1: "Validate \<lparr>Name = ''_oauth2_proxy'', Value = []\<rparr> ''secret-seed'' ?hour ?now ?now
      = Ok (None, zeroTime, False)"
    using Validate_never_panics [of "\<lparr>Name = ''_oauth2_proxy'', Value = []\<rparr>"
        "''secret-seed''" ?hour ?now ?now] short(1)
    by blast
  have r2: "Validate \<lparr>Name = ''_oauth2_proxy'', Value = ''cGF5bG9hZA==|1600000000''\<rparr>
      ''secret-seed'' ?hour ?now ?now = Ok (None, zeroTime, False)"
    using Validate_never_panics [of "\<lparr>Name = ''_oauth2_proxy'',
        Value = ''cGF5bG9hZA==|1600000000''\<rparr>" "''secret-seed''" ?hour ?now ?now] short(2)
    by blast
  have r3: "Validate \<lparr>Name = ''_oauth2_proxy'', Value = ''a|1600000000|b|c''\<rparr>
      ''secret-seed'' ?hour ?now ?now = Ok (None, zeroTime, False)"
    using Validate_never_panics [of "\<lparr>Name = ''_oauth2_proxy'',
        Value = ''a|1600000000|b|c''\<rparr>" "''secret-seed''" ?hour ?now ?now] short(3)
    by blast
  have r4: "Validate ?forged ''secret-seed'' ?hour ?now ?now = Ok (None, zeroTime, False)"
    using Validate_never_panics [of ?forged "''secret-seed''" ?hour ?now ?now] parts(1) sigs(1)
    by blast
  have r5: "Validate ?badtime ''secret-seed'' ?hour ?now ?now = Ok (None, zeroTime, False)"
    using Validate_never_panics [of ?badtime "''secret-seed''" ?hour ?now ?now] parts(2) sigs(2)
      Atoi_16e8
    by blast
  have r6: "Validate ?cookie ''secret-seed'' ?hour ?later ?later
      = Ok (None, Unix 1600000000 0, False)"
    using Validate_never_panics [of ?cookie "''secret-seed''" ?hour ?later ?later] parts(3)
      sigs(3) Atoi_1600000000 late
    by blast
  have r7: "Validate ?badvalue ''secret-seed'' ?hour ?now ?now
      = Ok (None, Unix 1600000000 0, False)"
    using Validate_never_panics [of ?badvalue "''secret-seed''" ?hour ?now ?now] parts(4)
      sigs(4) Atoi_1600000000 inside DecodeString_others(1)
    by blast
  have r8: "Validate ?cookie ''secret-seed'' ?hour ?now ?now
      = Ok (Some ''payload'', Unix 1600000000 0, True)"
    using Validate_never_panics [of ?cookie "''secret-seed''" ?hour ?now ?now] parts(3)
      sigs(3) Atoi_1600000000 inside DecodeString_macs(4)
    by blast
  show ?thesis
    using short parts sigs late inside r1 r2 r3 r4 r5 r6 r7 r8 Atoi_16e8 Atoi_1600000000
      DecodeString_others(1) DecodeString_macs(4)
    by (intro conjI) assumption+
qed

text \<open>
  Claim C4 as stated fails: for the cookie signed at 1600000000 with an expiration of
  one hour, validated two hours later, the check of the window fails and the time
  returned is the embedded one, not the zero time.
\<close>

theorem Validate_zero_outputs_counterexample:
  "Validate \<lparr>Name = ''_oauth2_proxy'',
      Value = ''cGF5bG9hZA==|1600000000|yCJbqKm7gtvZqNNzma0n-Yj7z6uhjFIhB45tp-I2jyM=''\<rparr> ''secret-seed'' 3600000000000 (Unix 1600007200 0) (Unix 1600007200 0)
     = Ok (None, Unix 1600000000 0, False) \<and>
   Unix 1600000000 0 \<noteq> zeroTime"
  by (simp add: Validate_cookie Unix_eval zeroTime_def)

section \<open>Signing, then validating\<close>

text \<open>
  Claim C5, amended. For a time \<open>now\<close> whose seconds fit 64 bits, counted from the
  Unix epoch and counted from year 1 as a \<^verbatim>\<open>Time\<close> keeps them, and an expiration
  longer than the part of \<open>now\<close> below the second (for a whole second: any positive
  expiration), \<^verbatim>\<open>SignedValue\<close> returns a cookie value, and \<^verbatim>\<open>Validate\<close> of it, at the
  time \<open>now\<close> and with the same seed and name, returns the value, the time \<open>now\<close>
  cut to the whole second, and \<^verbatim>\<open>true\<close>.
\<close>

theorem Validate_SignedValue:
  assumes lo: "- 9223372036854775808 \<le> Time_Unix now"
    and hi: "Time_Unix now \<le> 9223372036854775807 - 62135596800"
    and exp: "now mod 1000000000 < sint expiration"
  shows "\<exists>cookieVal. SignedValue seed name v now = Ok cookieVal
           \<and> Validate \<lparr>Name = name, Value = cookieVal\<rparr> seed expiration now now
               = Ok (Some v, Unix (Time_Unix now) 0, True)"
proof -
  define enc where "enc = EncodeToString URLEncoding v"
  define ts where "ts = formatInt (Time_Unix now)"
  define sig where "sig = EncodeToString URLEncoding (hmacSum sha256_New seed (name @ enc @ ts))"
  have signed: "SignedValue seed name v now = Ok (enc @ ''|'' @ ts @ ''|'' @ sig)"
    by (simp add: SignedValue_def cookieSignature_def enc_def ts_def sig_def Let_def)
  have parts: "Split (enc @ ''|'' @ ts @ ''|'' @ sig) CHR ''|'' = [enc, ts, sig]"
    using Split_three [of "CHR ''|''" enc ts sig]
    by (simp add: enc_def ts_def sig_def bar_notin_EncodeToString_URL bar_notin_formatInt)
  have "0 \<le> now mod 1000000000"
    by simp
  with exp have pos: "0 < sint expiration"
    by linarith
  then have neg: "sint (expiration * - 1) = - sint expiration"
    by (intro sint_times_minus_1) simp
  have t: "Time_Unix now * 1000000000 = now - now mod 1000000000"
    by (simp add: Time_Unix_def minus_mod_eq_div_mult [symmetric])
  have d1: "DecodeString URLEncoding sig = Some (hmacSum sha256_New seed (name @ enc @ ts))"
    by (simp add: sig_def DecodeString_EncodeToString_URL)
  have u: "Unix (Time_Unix now) 0 = Time_Unix now * 1000000000"
    by (rule Unix_no_wrap [OF lo hi])
  have d2: "Atoi ts = Some (Time_Unix now)"
    unfolding ts_def using hi by (intro Atoi_formatInt [OF lo]) simp
  have d3: "DecodeString URLEncoding enc = Some v"
    by (simp add: enc_def DecodeString_EncodeToString_URL)
  have "Validate \<lparr>Name = name, Value = enc @ ''|'' @ ts @ ''|'' @ sig\<rparr> seed expiration now now
      = Ok (Some v, Unix (Time_Unix now) 0, True)"
    unfolding Validate_three_parts_record [OF parts]
    using exp neg t by (simp add: d1 d2 d3 u)
  with signed show ?thesis
    by blast
qed

theorem Validate_SignedValue_witness:
  "- 9223372036854775808 \<le> Time_Unix (Unix 1600000000 500000000) \<and>
   Time_Unix (Unix 1600000000 500000000) \<le> 9223372036854775807 - 62135596800 \<and>
   Unix 1600000000 500000000 mod 1000000000 < sint (3600000000000 :: Duration) \<and>
   (\<exists>cookieVal.
      SignedValue ''secret-seed'' ''_oauth2_proxy'' ''payload'' (Unix 1600000000 500000000)
        = Ok cookieVal
      \<and> Validate \<lparr>Name = ''_oauth2_proxy'', Value = cookieVal\<rparr> ''secret-seed'' 3600000000000
            (Unix 1600000000 500000000) (Unix 1600000000 500000000)
          = Ok (Some ''payload'', Unix 1600000000 0, True))"
proof -
  have lo: "- 9223372036854775808 \<le> Time_Unix (Unix 1600000000 500000000)"
    and hi: "Time_Unix (Unix 1600000000 500000000) \<le> 9223372036854775807 - 62135596800"
    and tu: "Time_Unix (Unix 1600000000 500000000) = 1600000000"
    by (simp_all add: Time_Unix_def Unix_eval)
  have exp: "Unix 1600000000 500000000 mod 1000000000 < sint (3600000000000 :: Duration)"
    by (simp add: Unix_eval)
  show ?thesis
    using lo hi exp
      Validate_SignedValue [OF lo hi exp, of "''secret-seed''" "''_oauth2_proxy''" "''payload''"]
    by (simp only: tu)
qed

text \<open>
  Claim C5 as stated fails. With the expiration 0 the condition
  \<open>0 \<le> now - now \<le> expiration\<close> holds, and the cookie signed at \<open>now\<close> is rejected at
  \<open>now\<close>. And a cookie signed half a second after 1600000000 validates with the time
  1600000000, which is not the time it was signed at.
\<close>

theorem Validate_SignedValue_counterexample:
  "SignedValue ''secret-seed'' ''_oauth2_proxy'' ''payload'' (Unix 1600000000 0)
     = Ok (Value \<lparr>Name = ''_oauth2_proxy'',
      Value = ''cGF5bG9hZA==|1600000000|yCJbqKm7gtvZqNNzma0n-Yj7z6uhjFIhB45tp-I2jyM=''\<rparr>) \<and>
   0 \<le> Unix 1600000000 0 - Unix 1600000000 0 \<and>
   Unix 1600000000 0 - Unix 1600000000 0 \<le> sint (0 :: Duration) \<and>
   Validate \<lparr>Name = ''_oauth2_proxy'',
      Value = ''cGF5bG9hZA==|1600000000|yCJbqKm7gtvZqNNzma0n-Yj7z6uhjFIhB45tp-I2jyM=''\<rparr> ''secret-seed'' 0 (Unix 1600000000 0) (Unix 1600000000 0)
     = Ok (None, Unix 1600000000 0, False) \<and>
   SignedValue ''secret-seed'' ''_oauth2_proxy'' ''payload'' (Unix 1600000000 500000000)
     = Ok (Value \<lparr>Name = ''_oauth2_proxy'',
      Value = ''cGF5bG9hZA==|1600000000|yCJbqKm7gtvZqNNzma0n-Yj7z6uhjFIhB45tp-I2jyM=''\<rparr>) \<and>
   Validate \<lparr>Name = ''_oauth2_proxy'',
      Value = ''cGF5bG9hZA==|1600000000|yCJbqKm7gtvZqNNzma0n-Yj7z6uhjFIhB45tp-I2jyM=''\<rparr> ''secret-seed'' 3600000000000
       (Unix 1600000000 500000000) (Unix 1600000000 500000000)
     = Ok (Some ''payload'', Unix 1600000000 0, True) \<and>
   Unix 1600000000 0 \<noteq> Unix 1600000000 500000000"
proof -
  have "SignedValue ''secret-seed'' ''_oauth2_proxy'' ''payload'' (Unix 1600000000 500000000)
      = SignedValue ''secret-seed'' ''_oauth2_proxy'' ''payload'' (Unix 1600000000 0)"
    by (simp add: SignedValue_def Time_Unix_def Unix_eval)
  then show ?thesis
    using SignedValue_cookie by (simp add: Validate_cookie Unix_eval)
qed

end
